theory Spec2Isabelle
  imports Main "HOL-Library.Word"
begin

section \<open>The blog backend of \<^verbatim>\<open>src/app.ts\<close>\<close>

text \<open>
  The program is ten Express request handlers over two Mongoose models, \<^verbatim>\<open>User\<close> and
  \<^verbatim>\<open>Post\<close>. A handler is embedded as a function from the request (path parameter, body)
  and the state of the database to the new state and the response. The Mongoose calls the
  handlers make are embedded as functions on the same state, following the schema
  declarations of the source (\<^verbatim>\<open>required\<close>, \<^verbatim>\<open>trim\<close>, \<^verbatim>\<open>match\<close>, \<^verbatim>\<open>unique\<close>,
  \<^verbatim>\<open>select: false\<close>, \<^verbatim>\<open>minlength\<close>, \<^verbatim>\<open>default\<close>, \<^verbatim>\<open>timestamps\<close>, \<^verbatim>\<open>ref\<close>) and the
  documented behaviour of each call. The database is reachable throughout (the source
  exits at start-up otherwise) and requests are handled one after the other; failures of
  the connection and interleavings of concurrent requests are outside the model.

  Strings are lists of code units, here the code units below 256.
\<close>

subsection \<open>Requests\<close>

text \<open>
  \<^verbatim>\<open>type UserType = { firstName: string; lastName: string; email: string; password: string;
  isActive?: boolean }\<close> and \<^verbatim>\<open>type PostType = { title: string; content: string; userId: string }\<close>.
  The body is cast to these types unchecked, and the handlers test each field for presence,
  so every field is optional in the model: \<open>None\<close> is JavaScript's \<^verbatim>\<open>undefined\<close>. The
  records are extensible: the \<open>more\<close> part of a scheme stands for any further fields of
  the body.
\<close>

record UserType =
  firstName :: "string option"
  lastName :: "string option"
  email :: "string option"
  password :: "string option"
  isActive :: "bool option"

record PostType =
  title :: "string option"
  content :: "string option"
  userId :: "string option"

text \<open>JavaScript's truthiness of a value that is a string or \<^verbatim>\<open>undefined\<close>: \<^verbatim>\<open>!v\<close> is
  \<open>\<not> truthy v\<close>. The empty string is falsy.\<close>

definition truthy :: "string option \<Rightarrow> bool" where
  "truthy v = (case v of None \<Rightarrow> False | Some s \<Rightarrow> s \<noteq> [])"

text \<open>The string a field holds; read only where the field has been tested truthy, or by
  a schema setter, which leaves \<^verbatim>\<open>undefined\<close> to the \<^verbatim>\<open>required\<close> validator.\<close>

definition str :: "string option \<Rightarrow> string" where
  "str v = (case v of None \<Rightarrow> [] | Some s \<Rightarrow> s)"

subsection \<open>Responses\<close>

type_synonym objid = "96 word"

text \<open>What \<^verbatim>\<open>error.message\<close> reports in the generic catch block: the kind of the error
  Mongoose or the driver raised, with the validator messages of the schema.\<close>

datatype error =
    CastError string
  | ValidationError "string list"
  | DuplicateKey
  | DocumentNotFound

text \<open>A hydrated \<^verbatim>\<open>User\<close> document, as a query or \<^verbatim>\<open>create\<close> returns it and as
  \<^verbatim>\<open>res.json\<close> serialises it: \<open>doc_password\<close> is \<open>None\<close> when the path was not selected.
  \<open>doc_modified\<close> is the document's record of modified paths, which is not serialised.\<close>

record user_document =
  doc_id :: objid
  doc_firstName :: string
  doc_lastName :: string
  doc_email :: string
  doc_password :: "string option"
  doc_isActive :: bool
  doc_createdAt :: nat
  doc_updatedAt :: nat
  doc_modified :: "string list"

text \<open>The projection \<^verbatim>\<open>'firstName lastName email'\<close> of a \<^verbatim>\<open>User\<close>, which Mongoose returns
  together with \<^verbatim>\<open>_id\<close>.\<close>

record author =
  author_id :: objid
  author_firstName :: string
  author_lastName :: string
  author_email :: string

text \<open>The \<^verbatim>\<open>userId\<close> path of a hydrated \<^verbatim>\<open>Post\<close>: the raw id, the populated author
  (\<open>None\<close> is \<^verbatim>\<open>null\<close>), or a value assigned to the path that does not cast to an ObjectId.\<close>

datatype reference = Raw objid | Populated "author option" | Uncastable string

record post_document =
  pdoc_id :: objid
  pdoc_title :: string
  pdoc_content :: string
  pdoc_userId :: reference
  pdoc_createdAt :: nat
  pdoc_updatedAt :: nat
  pdoc_modified :: "string list"

datatype payload =
    ErrorJson string
  | MessageJson string
  | FailureJson error
  | UsersJson "user_document list"
  | UserJson user_document
  | PostsJson "post_document list"
  | PostJson post_document

record response =
  status :: nat
  body :: payload

text \<open>\<^verbatim>\<open>res.json(x)\<close>, \<^verbatim>\<open>res.status(n).json({ error: m })\<close> and the catch block
  \<^verbatim>\<open>res.status(500).json({ message: error.message })\<close>. Whatever Mongoose raises is an
  \<^verbatim>\<open>Error\<close>, so the other branch of the catch block is not taken.\<close>

definition json :: "payload \<Rightarrow> response" where
  "json p = \<lparr>status = 200, body = p\<rparr>"

definition status_json :: "nat \<Rightarrow> payload \<Rightarrow> response" where
  "status_json n p = \<lparr>status = n, body = p\<rparr>"

definition catch :: "error \<Rightarrow> response" where
  "catch e = status_json 500 (FailureJson e)"

subsection \<open>The database\<close>

record user_doc =
  user_id :: objid
  user_firstName :: string
  user_lastName :: string
  user_email :: string
  user_password :: string
  user_isActive :: bool
  user_createdAt :: nat
  user_updatedAt :: nat

record post_doc =
  post_id :: objid
  post_title :: string
  post_content :: string
  post_userId :: objid
  post_createdAt :: nat
  post_updatedAt :: nat

datatype model = User | Post

datatype operation = Find | FindOne | Create | FindById | Save | FindByIdAndDelete | Populate

text \<open>The state: the two collections, the time \<^verbatim>\<open>timestamps: true\<close> reads, the next
  ObjectId the driver generates, and the Mongoose calls made so far.\<close>

record db =
  users :: "user_doc list"
  posts :: "post_doc list"
  clock :: nat
  nextId :: objid
  trace :: "(model \<times> operation) list"

definition logCall :: "model \<Rightarrow> operation \<Rightarrow> db \<Rightarrow> db" where
  "logCall m operation s = s\<lparr>trace := trace s @ [(m, operation)]\<rparr>"

subsection \<open>Schema types\<close>

text \<open>An ObjectId is cast from a string of 24 hexadecimal digits, in either case.\<close>

definition hexDigit :: "char \<Rightarrow> nat option" where
  "hexDigit c = map_of
     [(CHR ''0'', 0), (CHR ''1'', 1), (CHR ''2'', 2), (CHR ''3'', 3), (CHR ''4'', 4),
      (CHR ''5'', 5), (CHR ''6'', 6), (CHR ''7'', 7), (CHR ''8'', 8), (CHR ''9'', 9),
      (CHR ''a'', 10), (CHR ''b'', 11), (CHR ''c'', 12), (CHR ''d'', 13), (CHR ''e'', 14),
      (CHR ''f'', 15), (CHR ''A'', 10), (CHR ''B'', 11), (CHR ''C'', 12), (CHR ''D'', 13),
      (CHR ''E'', 14), (CHR ''F'', 15)] c"

fun parseHex :: "string \<Rightarrow> nat \<Rightarrow> nat option" where
  "parseHex [] acc = Some acc"
| "parseHex (c # cs) acc =
     (case hexDigit c of None \<Rightarrow> None | Some d \<Rightarrow> parseHex cs (acc * 16 + d))"

definition castObjectId :: "string \<Rightarrow> objid option" where
  "castObjectId s = (if length s = 24 then map_option of_nat (parseHex s 0) else None)"

text \<open>\<^verbatim>\<open>trim: true\<close> is the setter \<^verbatim>\<open>String.prototype.trim\<close>: white space is tab, line
  feed, vertical tab, form feed, carriage return, space and no-break space.\<close>

definition isSpace :: "char \<Rightarrow> bool" where
  "isSpace c = (c \<in> set [CHR 0x09, CHR 0x0A, CHR 0x0B, CHR 0x0C, CHR 0x0D, CHR 0x20, CHR 0xA0])"

definition trim :: "string \<Rightarrow> string" where
  "trim s = rev (dropWhile isSpace (rev (dropWhile isSpace s)))"

text \<open>\<^verbatim>\<open>match: [/^\S+@\S+\.\S+$/, 'Email is not valid']\<close>. \<open>dotThenSome\<close> is \<^verbatim>\<open>.*\.\S+$\<close> on a
  string without white space, \<open>atThenDot\<close> is \<^verbatim>\<open>.*@\S+\.\S+$\<close> there.\<close>

fun dotThenSome :: "string \<Rightarrow> bool" where
  "dotThenSome [] = False"
| "dotThenSome (c # cs) = ((c = CHR ''.'' \<and> cs \<noteq> []) \<or> dotThenSome cs)"

fun atThenDot :: "string \<Rightarrow> bool" where
  "atThenDot [] = False"
| "atThenDot (c # cs) = ((c = CHR ''@'' \<and> cs \<noteq> [] \<and> dotThenSome (tl cs)) \<or> atThenDot cs)"

definition emailMatch :: "string \<Rightarrow> bool" where
  "emailMatch s = (list_all (\<lambda>c. \<not> isSpace c) s \<and> s \<noteq> [] \<and> atThenDot (tl s))"

subsection \<open>The models\<close>

text \<open>\<^verbatim>\<open>userSchema\<close>: the validators of each path, run on the value the setters left. A
  path keeps the first error it meets; a path that is not selected (\<open>None\<close>) is not
  validated.\<close>

definition userSchema_validate :: "string \<Rightarrow> string \<Rightarrow> string \<Rightarrow> string option \<Rightarrow> string list" where
  "userSchema_validate fn ln em pw =
     (if fn = [] then [''First name is required''] else []) @
     (if ln = [] then [''Last name is required''] else []) @
     (if em = [] then [''Email is required'']
      else if \<not> emailMatch em then [''Email is not valid''] else []) @
     (case pw of
        None \<Rightarrow> []
      | Some p \<Rightarrow>
          if p = [] then [''Password is required'']
          else if length p < 6 then [''Password must be at least 6 characters long'']
          else [])"

text \<open>\<^verbatim>\<open>postSchema\<close>: \<^verbatim>\<open>userId\<close> is of type ObjectId and required (\<open>None\<close> is
  \<^verbatim>\<open>undefined\<close>). A value that does not cast is recorded when it is set on the path,
  before the validators run, so its error comes first; its message quotes the value.\<close>

definition castMessage :: "string \<Rightarrow> string" where
  "castMessage v =
     ''Cast to ObjectId failed for value '' @ [CHR 0x22] @ v @ [CHR 0x22] @
     '' (type string) at path '' @ [CHR 0x22] @ ''userId'' @ [CHR 0x22] @
     '' because of '' @ [CHR 0x22] @ ''BSONError'' @ [CHR 0x22]"

definition postSchema_validate :: "string \<Rightarrow> string \<Rightarrow> reference option \<Rightarrow> string list" where
  "postSchema_validate t c r =
     (case r of Some (Uncastable v) \<Rightarrow> [castMessage v] | _ \<Rightarrow> []) @
     (if t = [] then [''Title is required''] else []) @
     (if c = [] then [''Content is required''] else []) @
     (case r of None \<Rightarrow> [''User ID is required''] | _ \<Rightarrow> [])"

text \<open>Reading a stored record into a document. \<^verbatim>\<open>password\<close> is \<^verbatim>\<open>select: false\<close>, so a
  query leaves it out; \<^verbatim>\<open>create\<close> returns the document it built, password included.\<close>

definition hydrateUser :: "user_doc \<Rightarrow> user_document" where
  "hydrateUser u =
     \<lparr>doc_id = user_id u, doc_firstName = user_firstName u, doc_lastName = user_lastName u,
      doc_email = user_email u, doc_password = None, doc_isActive = user_isActive u,
      doc_createdAt = user_createdAt u, doc_updatedAt = user_updatedAt u, doc_modified = []\<rparr>"

definition hydratePost :: "post_doc \<Rightarrow> post_document" where
  "hydratePost p =
     \<lparr>pdoc_id = post_id p, pdoc_title = post_title p, pdoc_content = post_content p,
      pdoc_userId = Raw (post_userId p), pdoc_createdAt = post_createdAt p,
      pdoc_updatedAt = post_updatedAt p, pdoc_modified = []\<rparr>"

text \<open>\<^verbatim>\<open>User.find()\<close>.\<close>

definition User_find :: "db \<Rightarrow> db \<times> user_document list" where
  "User_find s = (logCall User Find s, map hydrateUser (users s))"

text \<open>\<^verbatim>\<open>User.findOne({ email })\<close>: the filter is cast with the setters of the path.\<close>

definition User_findOne :: "string \<Rightarrow> db \<Rightarrow> db \<times> user_document option" where
  "User_findOne em s =
     (logCall User FindOne s,
      map_option hydrateUser (List.find (\<lambda>u. user_email u = trim em) (users s)))"

text \<open>\<^verbatim>\<open>User.create({ firstName, lastName, email, password, isActive })\<close>: build the
  document (a new ObjectId, the setters, the default of \<^verbatim>\<open>isActive\<close>), validate, stamp,
  insert. The insert fails on the unique indexes of \<^verbatim>\<open>_id\<close> and \<^verbatim>\<open>email\<close>.\<close>

definition User_create :: "UserType \<Rightarrow> db \<Rightarrow> db \<times> (error + user_document)" where
  "User_create obj s =
     (let s1 = (logCall User Create s)\<lparr>nextId := nextId s + 1\<rparr>;
          d = \<lparr>doc_id = nextId s,
               doc_firstName = trim (str (firstName obj)),
               doc_lastName = trim (str (lastName obj)),
               doc_email = trim (str (email obj)),
               doc_password = Some (str (password obj)),
               doc_isActive = (case isActive obj of None \<Rightarrow> True | Some b \<Rightarrow> b),
               doc_createdAt = clock s, doc_updatedAt = clock s, doc_modified = []\<rparr>;
          errs = userSchema_validate (doc_firstName d) (doc_lastName d) (doc_email d)
                   (doc_password d)
      in if errs \<noteq> [] then (s1, Inl (ValidationError errs))
         else if \<exists>u\<in>set (users s). user_id u = doc_id d \<or> user_email u = doc_email d
           then (s1, Inl DuplicateKey)
         else (s1\<lparr>users := users s @
                 [\<lparr>user_id = doc_id d, user_firstName = doc_firstName d,
                   user_lastName = doc_lastName d, user_email = doc_email d,
                   user_password = str (password obj), user_isActive = doc_isActive d,
                   user_createdAt = doc_createdAt d, user_updatedAt = doc_updatedAt d\<rparr>]\<rparr>,
               Inr d))"

text \<open>\<^verbatim>\<open>User.findById(id)\<close>: an id that does not cast raises a CastError.\<close>

definition User_findById :: "string \<Rightarrow> db \<Rightarrow> db \<times> (error + user_document option)" where
  "User_findById i s =
     (case castObjectId i of
        None \<Rightarrow> (logCall User FindById s, Inl (CastError ''_id''))
      | Some oid \<Rightarrow>
          (logCall User FindById s,
           Inr (map_option hydrateUser (List.find (\<lambda>u. user_id u = oid) (users s)))))"

text \<open>Assignments to the paths of a loaded document: the setter runs, and the path is
  marked modified when the value changes.\<close>

definition set_firstName :: "string \<Rightarrow> user_document \<Rightarrow> user_document" where
  "set_firstName v d =
     (if trim v = doc_firstName d then d
      else d\<lparr>doc_firstName := trim v, doc_modified := doc_modified d @ [''firstName'']\<rparr>)"

definition set_lastName :: "string \<Rightarrow> user_document \<Rightarrow> user_document" where
  "set_lastName v d =
     (if trim v = doc_lastName d then d
      else d\<lparr>doc_lastName := trim v, doc_modified := doc_modified d @ [''lastName'']\<rparr>)"

definition set_email :: "string \<Rightarrow> user_document \<Rightarrow> user_document" where
  "set_email v d =
     (if trim v = doc_email d then d
      else d\<lparr>doc_email := trim v, doc_modified := doc_modified d @ [''email'']\<rparr>)"

text \<open>\<^verbatim>\<open>updateOne({ _id }, { $set: ... })\<close>: the first record that matches is updated.\<close>

fun updateOne :: "('a \<Rightarrow> bool) \<Rightarrow> ('a \<Rightarrow> 'a) \<Rightarrow> 'a list \<Rightarrow> 'a list" where
  "updateOne P f [] = []"
| "updateOne P f (x # xs) = (if P x then f x # xs else x # updateOne P f xs)"

text \<open>\<^verbatim>\<open>user.save()\<close> on a loaded document: validate the loaded and modified paths; with
  no modified path nothing is written; otherwise \<^verbatim>\<open>updatedAt\<close> is stamped and the
  modified paths are written to the record of this \<^verbatim>\<open>_id\<close>. The write fails on the
  unique index of \<^verbatim>\<open>email\<close>.\<close>

definition User_save :: "user_document \<Rightarrow> db \<Rightarrow> db \<times> (error + user_document)" where
  "User_save d s =
     (let s1 = logCall User Save s;
          errs = userSchema_validate (doc_firstName d) (doc_lastName d) (doc_email d)
                   (doc_password d)
      in if errs \<noteq> [] then (s1, Inl (ValidationError errs))
         else if doc_modified d = [] then (s1, Inr d)
         else if \<not> (\<exists>u\<in>set (users s). user_id u = doc_id d) then (s1, Inl DocumentNotFound)
         else if ''email'' \<in> set (doc_modified d) \<and>
                 (\<exists>u\<in>set (users s). user_id u \<noteq> doc_id d \<and> user_email u = doc_email d)
           then (s1, Inl DuplicateKey)
         else (s1\<lparr>users := updateOne (\<lambda>u. user_id u = doc_id d)
                    (\<lambda>u. u\<lparr>user_firstName :=
                              (if ''firstName'' \<in> set (doc_modified d) then doc_firstName d
                               else user_firstName u),
                            user_lastName :=
                              (if ''lastName'' \<in> set (doc_modified d) then doc_lastName d
                               else user_lastName u),
                            user_email :=
                              (if ''email'' \<in> set (doc_modified d) then doc_email d
                               else user_email u),
                            user_updatedAt := clock s\<rparr>)
                    (users s)\<rparr>,
               Inr (d\<lparr>doc_updatedAt := clock s, doc_modified := []\<rparr>)))"

text \<open>\<^verbatim>\<open>User.findByIdAndDelete(id)\<close>: one call that removes the record and returns it,
  or returns \<^verbatim>\<open>null\<close>.\<close>

definition User_findByIdAndDelete :: "string \<Rightarrow> db \<Rightarrow> db \<times> (error + user_document option)" where
  "User_findByIdAndDelete i s =
     (case castObjectId i of
        None \<Rightarrow> (logCall User FindByIdAndDelete s, Inl (CastError ''_id''))
      | Some oid \<Rightarrow>
          (case List.find (\<lambda>u. user_id u = oid) (users s) of
             None \<Rightarrow> (logCall User FindByIdAndDelete s, Inr None)
           | Some u \<Rightarrow>
               ((logCall User FindByIdAndDelete s)\<lparr>users := remove1 u (users s)\<rparr>,
                Inr (Some (hydrateUser u)))))"

text \<open>The value a string leaves on the \<^verbatim>\<open>userId\<close> path.\<close>

definition castRef :: "string \<Rightarrow> reference" where
  "castRef v = (case castObjectId v of None \<Rightarrow> Uncastable v | Some oid \<Rightarrow> Raw oid)"

text \<open>\<^verbatim>\<open>Post.create({ title, content, userId })\<close>. No validator looks \<^verbatim>\<open>userId\<close> up in
  the users.\<close>

definition Post_create :: "PostType \<Rightarrow> db \<Rightarrow> db \<times> (error + post_document)" where
  "Post_create obj s =
     (let s1 = (logCall Post Create s)\<lparr>nextId := nextId s + 1\<rparr>;
          t = trim (str (title obj));
          c = trim (str (content obj));
          r = map_option castRef (userId obj);
          errs = postSchema_validate t c r
      in if errs \<noteq> [] then (s1, Inl (ValidationError errs))
         else case r of
           Some (Raw oid) \<Rightarrow>
             if \<exists>p\<in>set (posts s). post_id p = nextId s then (s1, Inl DuplicateKey)
             else (s1\<lparr>posts := posts s @
                     [\<lparr>post_id = nextId s, post_title = t, post_content = c,
                       post_userId = oid, post_createdAt = clock s,
                       post_updatedAt = clock s\<rparr>]\<rparr>,
                   Inr \<lparr>pdoc_id = nextId s, pdoc_title = t, pdoc_content = c,
                        pdoc_userId = Raw oid, pdoc_createdAt = clock s,
                        pdoc_updatedAt = clock s, pdoc_modified = []\<rparr>)
         | _ \<Rightarrow> (s1, Inl (ValidationError errs)))"

text \<open>\<^verbatim>\<open>populate('userId', 'firstName lastName email')\<close>: the raw id is replaced by the
  projection of the user with that \<^verbatim>\<open>_id\<close>, or by \<^verbatim>\<open>null\<close> when there is none.\<close>

definition authorOf :: "user_doc \<Rightarrow> author" where
  "authorOf u =
     \<lparr>author_id = user_id u, author_firstName = user_firstName u,
      author_lastName = user_lastName u, author_email = user_email u\<rparr>"

definition populated :: "db \<Rightarrow> post_document \<Rightarrow> post_document" where
  "populated s p =
     (case pdoc_userId p of
        Raw oid \<Rightarrow>
          p\<lparr>pdoc_userId :=
              Populated (map_option authorOf (List.find (\<lambda>u. user_id u = oid) (users s)))\<rparr>
      | _ \<Rightarrow> p)"

text \<open>\<^verbatim>\<open>post.populate(...)\<close> on a document.\<close>

definition populate :: "post_document \<Rightarrow> db \<Rightarrow> db \<times> post_document" where
  "populate p s = (logCall User Populate s, populated s p)"

text \<open>\<^verbatim>\<open>Post.find().populate(...).lean()\<close>: with no post there is nothing to populate.\<close>

definition Post_find_populate :: "db \<Rightarrow> db \<times> post_document list" where
  "Post_find_populate s =
     (if posts s = [] then (logCall Post Find s, [])
      else (logCall User Populate (logCall Post Find s),
            map (\<lambda>p. populated s (hydratePost p)) (posts s)))"

text \<open>\<^verbatim>\<open>Post.findById(id)\<close> and \<^verbatim>\<open>Post.findById(id).populate(...)\<close>.\<close>

definition Post_findById :: "string \<Rightarrow> db \<Rightarrow> db \<times> (error + post_document option)" where
  "Post_findById i s =
     (case castObjectId i of
        None \<Rightarrow> (logCall Post FindById s, Inl (CastError ''_id''))
      | Some oid \<Rightarrow>
          (logCall Post FindById s,
           Inr (map_option hydratePost (List.find (\<lambda>p. post_id p = oid) (posts s)))))"

definition Post_findById_populate :: "string \<Rightarrow> db \<Rightarrow> db \<times> (error + post_document option)" where
  "Post_findById_populate i s =
     (case Post_findById i s of
        (s1, Inl e) \<Rightarrow> (s1, Inl e)
      | (s1, Inr None) \<Rightarrow> (s1, Inr None)
      | (s1, Inr (Some p)) \<Rightarrow> (case populate p s1 of (s2, p') \<Rightarrow> (s2, Inr (Some p'))))"

definition set_title :: "string \<Rightarrow> post_document \<Rightarrow> post_document" where
  "set_title v d =
     (if trim v = pdoc_title d then d
      else d\<lparr>pdoc_title := trim v, pdoc_modified := pdoc_modified d @ [''title'']\<rparr>)"

definition set_content :: "string \<Rightarrow> post_document \<Rightarrow> post_document" where
  "set_content v d =
     (if trim v = pdoc_content d then d
      else d\<lparr>pdoc_content := trim v, pdoc_modified := pdoc_modified d @ [''content'']\<rparr>)"

definition set_userId :: "string \<Rightarrow> post_document \<Rightarrow> post_document" where
  "set_userId v d =
     (if castRef v = pdoc_userId d then d
      else d\<lparr>pdoc_userId := castRef v, pdoc_modified := pdoc_modified d @ [''userId'']\<rparr>)"

text \<open>\<^verbatim>\<open>post.save()\<close> on a loaded document.\<close>

definition Post_save :: "post_document \<Rightarrow> db \<Rightarrow> db \<times> (error + post_document)" where
  "Post_save d s =
     (let s1 = logCall Post Save s;
          errs = postSchema_validate (pdoc_title d) (pdoc_content d) (Some (pdoc_userId d))
      in if errs \<noteq> [] then (s1, Inl (ValidationError errs))
         else if pdoc_modified d = [] then (s1, Inr d)
         else if \<not> (\<exists>p\<in>set (posts s). post_id p = pdoc_id d) then (s1, Inl DocumentNotFound)
         else (s1\<lparr>posts := updateOne (\<lambda>p. post_id p = pdoc_id d)
                    (\<lambda>p. p\<lparr>post_title :=
                              (if ''title'' \<in> set (pdoc_modified d) then pdoc_title d
                               else post_title p),
                            post_content :=
                              (if ''content'' \<in> set (pdoc_modified d) then pdoc_content d
                               else post_content p),
                            post_userId :=
                              (case pdoc_userId d of Raw oid \<Rightarrow> oid | _ \<Rightarrow> post_userId p),
                            post_updatedAt := clock s\<rparr>)
                    (posts s)\<rparr>,
               Inr (d\<lparr>pdoc_updatedAt := clock s, pdoc_modified := []\<rparr>)))"

text \<open>\<^verbatim>\<open>Post.findByIdAndDelete(id)\<close>.\<close>

definition Post_findByIdAndDelete :: "string \<Rightarrow> db \<Rightarrow> db \<times> (error + post_document option)" where
  "Post_findByIdAndDelete i s =
     (case castObjectId i of
        None \<Rightarrow> (logCall Post FindByIdAndDelete s, Inl (CastError ''_id''))
      | Some oid \<Rightarrow>
          (case List.find (\<lambda>p. post_id p = oid) (posts s) of
             None \<Rightarrow> (logCall Post FindByIdAndDelete s, Inr None)
           | Some p \<Rightarrow>
               ((logCall Post FindByIdAndDelete s)\<lparr>posts := remove1 p (posts s)\<rparr>,
                Inr (Some (hydratePost p)))))"

subsection \<open>The handlers\<close>

text \<open>Each handler takes \<^verbatim>\<open>req.params.id\<close> and \<^verbatim>\<open>req.body\<close> where it reads them, and the
  state; an error a Mongoose call raises goes to the catch block.\<close>

definition getUsers :: "db \<Rightarrow> db \<times> response" where
  "getUsers s = (case User_find s of (s1, found) \<Rightarrow> (s1, json (UsersJson found)))"

definition createUser :: "'a UserType_scheme \<Rightarrow> db \<Rightarrow> db \<times> response" where
  "createUser b s =
     (if \<not> truthy (firstName b) \<or> \<not> truthy (lastName b) \<or> \<not> truthy (email b) \<or>
         \<not> truthy (password b)
      then (s, status_json 400
                 (ErrorJson ''firstName, lastName, email, and password are required''))
      else case User_findOne (str (email b)) s of
        (s1, Some found) \<Rightarrow> (s1, status_json 400 (ErrorJson ''User already exists''))
      | (s1, None) \<Rightarrow>
          (case User_create
                  \<lparr>firstName = firstName b, lastName = lastName b, email = email b,
                   password = password b, isActive = isActive b\<rparr> s1 of
             (s2, Inl e) \<Rightarrow> (s2, catch e)
           | (s2, Inr user) \<Rightarrow> (s2, json (UserJson user))))"

definition getUserById :: "string \<Rightarrow> db \<Rightarrow> db \<times> response" where
  "getUserById i s =
     (case User_findById i s of
        (s1, Inl e) \<Rightarrow> (s1, catch e)
      | (s1, Inr None) \<Rightarrow> (s1, status_json 404 (ErrorJson ''User not found''))
      | (s1, Inr (Some user)) \<Rightarrow> (s1, json (UserJson user)))"

definition updateUser :: "string \<Rightarrow> 'a UserType_scheme \<Rightarrow> db \<Rightarrow> db \<times> response" where
  "updateUser i b s =
     (if \<not> truthy (firstName b) \<or> \<not> truthy (lastName b) \<or> \<not> truthy (email b)
      then (s, status_json 400 (ErrorJson ''firstName, lastName, and email are required''))
      else case User_findById i s of
        (s1, Inl e) \<Rightarrow> (s1, catch e)
      | (s1, Inr None) \<Rightarrow> (s1, status_json 404 (ErrorJson ''User not found''))
      | (s1, Inr (Some user)) \<Rightarrow>
          (case User_save
                  (set_email (str (email b))
                    (set_lastName (str (lastName b))
                      (set_firstName (str (firstName b)) user))) s1 of
             (s2, Inl e) \<Rightarrow> (s2, catch e)
           | (s2, Inr saved) \<Rightarrow> (s2, json (UserJson saved))))"

definition deleteUser :: "string \<Rightarrow> db \<Rightarrow> db \<times> response" where
  "deleteUser i s =
     (case User_findByIdAndDelete i s of
        (s1, Inl e) \<Rightarrow> (s1, catch e)
      | (s1, Inr None) \<Rightarrow> (s1, status_json 404 (ErrorJson ''User not found''))
      | (s1, Inr (Some user)) \<Rightarrow> (s1, json (MessageJson ''User deleted'')))"

definition getPosts :: "db \<Rightarrow> db \<times> response" where
  "getPosts s = (case Post_find_populate s of (s1, found) \<Rightarrow> (s1, json (PostsJson found)))"

definition createPost :: "'a PostType_scheme \<Rightarrow> db \<Rightarrow> db \<times> response" where
  "createPost b s =
     (if \<not> truthy (title b) \<or> \<not> truthy (content b) \<or> \<not> truthy (userId b)
      then (s, status_json 400 (ErrorJson ''title, content, and userId are required''))
      else case Post_create \<lparr>title = title b, content = content b, userId = userId b\<rparr> s of
        (s1, Inl e) \<Rightarrow> (s1, catch e)
      | (s1, Inr post) \<Rightarrow>
          (case populate post s1 of (s2, populatedPost) \<Rightarrow> (s2, json (PostJson populatedPost))))"

definition getPostById :: "string \<Rightarrow> db \<Rightarrow> db \<times> response" where
  "getPostById i s =
     (case Post_findById_populate i s of
        (s1, Inl e) \<Rightarrow> (s1, catch e)
      | (s1, Inr None) \<Rightarrow> (s1, status_json 404 (ErrorJson ''Post not found''))
      | (s1, Inr (Some post)) \<Rightarrow> (s1, json (PostJson post)))"

definition updatePost :: "string \<Rightarrow> 'a PostType_scheme \<Rightarrow> db \<Rightarrow> db \<times> response" where
  "updatePost i b s =
     (if \<not> truthy (title b) \<or> \<not> truthy (content b) \<or> \<not> truthy (userId b)
      then (s, status_json 400 (ErrorJson ''title, content, and userId are required''))
      else case Post_findById i s of
        (s1, Inl e) \<Rightarrow> (s1, catch e)
      | (s1, Inr None) \<Rightarrow> (s1, status_json 404 (ErrorJson ''Post not found''))
      | (s1, Inr (Some post)) \<Rightarrow>
          (case Post_save
                  (set_userId (str (userId b))
                    (set_content (str (content b))
                      (set_title (str (title b)) post))) s1 of
             (s2, Inl e) \<Rightarrow> (s2, catch e)
           | (s2, Inr saved) \<Rightarrow>
               (case populate saved s2 of
                  (s3, populatedPost) \<Rightarrow> (s3, json (PostJson populatedPost)))))"

definition deletePost :: "string \<Rightarrow> db \<Rightarrow> db \<times> response" where
  "deletePost i s =
     (case Post_findByIdAndDelete i s of
        (s1, Inl e) \<Rightarrow> (s1, catch e)
      | (s1, Inr None) \<Rightarrow> (s1, status_json 404 (ErrorJson ''Post not found''))
      | (s1, Inr (Some post)) \<Rightarrow> (s1, json (MessageJson ''Post deleted'')))"

subsection \<open>Consistent states\<close>

text \<open>What the unique indexes (\<^verbatim>\<open>_id\<close> in both collections, \<^verbatim>\<open>email\<close> of the users) and the
  \<^verbatim>\<open>trim\<close> setter of \<^verbatim>\<open>email\<close> maintain in the database.\<close>

definition consistent :: "db \<Rightarrow> bool" where
  "consistent s =
     (distinct (map user_id (users s)) \<and> distinct (map user_email (users s)) \<and>
      list_all (\<lambda>u. trim (user_email u) = user_email u) (users s) \<and>
      distinct (map post_id (posts s)))"

subsection \<open>A small database and some requests\<close>

text \<open>One user, a post of hers and a post whose \<^verbatim>\<open>userId\<close> belongs to no user.\<close>

definition alice :: user_doc where
  "alice =
     \<lparr>user_id = 1, user_firstName = ''Alice'', user_lastName = ''Doe'',
      user_email = ''alice@example.com'', user_password = ''secret1'', user_isActive = False,
      user_createdAt = 10, user_updatedAt = 10\<rparr>"

definition hello :: post_doc where
  "hello =
     \<lparr>post_id = 2, post_title = ''Hello'', post_content = ''World'', post_userId = 1,
      post_createdAt = 20, post_updatedAt = 20\<rparr>"

definition orphan :: post_doc where
  "orphan =
     \<lparr>post_id = 3, post_title = ''Lost'', post_content = ''Soul'', post_userId = 9,
      post_createdAt = 30, post_updatedAt = 30\<rparr>"

definition blog :: db where
  "blog = \<lparr>users = [alice], posts = [hello, orphan], clock = 100, nextId = 4, trace = []\<rparr>"

text \<open>The same database with a second user and a post of hers.\<close>

definition carol :: user_doc where
  "carol =
     \<lparr>user_id = 5, user_firstName = ''Carol'', user_lastName = ''Poe'',
      user_email = ''carol@example.com'', user_password = ''secret2'', user_isActive = True,
      user_createdAt = 40, user_updatedAt = 40\<rparr>"

definition reply :: post_doc where
  "reply =
     \<lparr>post_id = 6, post_title = ''Re: Hello'', post_content = ''Hi'', post_userId = 5,
      post_createdAt = 50, post_updatedAt = 50\<rparr>"

definition blog2 :: db where
  "blog2 =
     \<lparr>users = [alice, carol], posts = [hello, orphan, reply], clock = 100, nextId = 7,
      trace = []\<rparr>"

definition id1 :: string where "id1 = ''000000000000000000000001''"
definition id2 :: string where "id2 = ''000000000000000000000002''"
definition id3 :: string where "id3 = ''000000000000000000000003''"
definition id4 :: string where "id4 = ''000000000000000000000004''"
definition id6 :: string where "id6 = ''000000000000000000000006''"
definition id9 :: string where "id9 = ''000000000000000000000009''"

text \<open>A sign-up that repeats Alice's email, one with a new email, one without a
  password, and one whose email and password the schema rejects.\<close>

definition signupAgain :: UserType where
  "signupAgain =
     \<lparr>firstName = Some ''Alice'', lastName = Some ''Doe'', email = Some ''alice@example.com'',
      password = Some ''hunter22'', isActive = None\<rparr>"

definition signupBob :: UserType where
  "signupBob =
     \<lparr>firstName = Some ''Bob'', lastName = Some ''Ray'', email = Some ''bob@example.com'',
      password = Some ''hunter22'', isActive = None\<rparr>"

definition signupNoPassword :: UserType where
  "signupNoPassword =
     \<lparr>firstName = Some ''Bob'', lastName = Some ''Ray'', email = Some ''bob@example.com'',
      password = None, isActive = None\<rparr>"

definition signupBadFormat :: UserType where
  "signupBadFormat =
     \<lparr>firstName = Some ''Bob'', lastName = Some ''Ray'', email = Some ''bob'',
      password = Some ''x'', isActive = None\<rparr>"

text \<open>Updates of Alice: a rename that also sends \<^verbatim>\<open>password\<close> and \<^verbatim>\<open>isActive\<close>, the
  same rename without them, one with an email the schema rejects, one with Carol's email,
  one with a first name of blanks, and one without \<^verbatim>\<open>email\<close>.\<close>

definition rename :: UserType where
  "rename =
     \<lparr>firstName = Some '' Alicia '', lastName = Some ''Doe'', email = Some ''alicia@example.com'',
      password = Some ''changed!'', isActive = Some True\<rparr>"

definition renameOnly :: UserType where
  "renameOnly =
     \<lparr>firstName = Some '' Alicia '', lastName = Some ''Doe'', email = Some ''alicia@example.com'',
      password = None, isActive = None\<rparr>"

definition renameBadEmail :: UserType where
  "renameBadEmail =
     \<lparr>firstName = Some ''Alicia'', lastName = Some ''Doe'', email = Some ''alicia'',
      password = None, isActive = None\<rparr>"

definition renameTaken :: UserType where
  "renameTaken =
     \<lparr>firstName = Some ''Alicia'', lastName = Some ''Doe'', email = Some ''carol@example.com'',
      password = None, isActive = None\<rparr>"

definition renameBlankName :: UserType where
  "renameBlankName =
     \<lparr>firstName = Some ''  '', lastName = Some ''Doe'', email = Some ''alicia@example.com'',
      password = None, isActive = None\<rparr>"

definition renameNoEmail :: UserType where
  "renameNoEmail =
     \<lparr>firstName = Some ''Alicia'', lastName = Some ''Doe'', email = None,
      password = None, isActive = None\<rparr>"





definition draftNoContent :: PostType where
  "draftNoContent = \<lparr>title = Some ''Draft'', content = None, userId = Some id9\<rparr>"

section \<open>Properties\<close>

subsection \<open>Lists, strings and ids\<close>

lemmas response_defs = json_def status_json_def catch_def logCall_def

lemma find_None_set: "(List.find P xs = None) = (\<forall>x\<in>set xs. \<not> P x)"
  by (induction xs) auto

lemma find_SomeD: "List.find P xs = Some x \<Longrightarrow> x \<in> set xs \<and> P x"
  by (induction xs) (auto split: if_splits)

lemma find_distinct:
  "distinct (map f xs) \<Longrightarrow> u \<in> set xs \<Longrightarrow> List.find (\<lambda>x. f x = f u) xs = Some u"
  by (induction xs) (auto simp: image_iff)


lemma remove1_distinct_key:
  "distinct (map f xs) \<Longrightarrow> u \<in> set xs \<Longrightarrow> v \<in> set (remove1 u xs) \<Longrightarrow> f v \<noteq> f u"
  by (induction xs) (auto simp: image_iff split: if_splits)

lemma map_unless_key:
  "\<forall>x\<in>set xs. f x \<noteq> k \<Longrightarrow> map (\<lambda>x. if f x = k then g x else x) xs = xs"
  by (induction xs) auto

lemma updateOne_distinct:
  "distinct (map f xs) \<Longrightarrow>
     updateOne (\<lambda>x. f x = k) g xs = map (\<lambda>x. if f x = k then g x else x) xs"
proof (induction xs)
  case Nil
  then show ?case by simp
next
  case (Cons x xs)
  show ?case
  proof (cases "f x = k")
    case True
    with Cons.prems have "\<forall>y\<in>set xs. f y \<noteq> k" by (auto simp: image_iff)
    then show ?thesis using True by (simp add: map_unless_key)
  next
    case False
    with Cons show ?thesis by simp
  qed
qed

lemma truthy_trim: "trim (str v) \<noteq> [] \<Longrightarrow> truthy v"
  by (cases v) (auto simp: truthy_def str_def trim_def)


lemma emailMatch_nonempty: "emailMatch e \<Longrightarrow> e \<noteq> []"
  by (auto simp: emailMatch_def)

lemma castObjectId_examples:
  "castObjectId id1 = Some 1" "castObjectId id2 = Some 2" "castObjectId id3 = Some 3"
  "castObjectId id4 = Some 4" "castObjectId id6 = Some 6" "castObjectId id9 = Some 9"
  "castObjectId ''abc'' = None"
  by (simp_all add: castObjectId_def hexDigit_def id1_def id2_def id3_def id4_def id6_def
        id9_def)

subsection \<open>The email pattern and the trim setter\<close>

text \<open>\<open>emailMatch\<close> is the pattern \<^verbatim>\<open>/^\S+@\S+\.\S+$/\<close>: no white space, and a split
  into three non-empty parts around an \<^verbatim>\<open>@\<close> and a later dot.\<close>

lemma dotThenSome_iff: "dotThenSome t \<longleftrightarrow> (\<exists>y c. c \<noteq> [] \<and> t = y @ CHR ''.'' # c)"
proof (induction t)
  case Nil
  then show ?case by simp
next
  case (Cons x t)
  show ?case
  proof
    assume "dotThenSome (x # t)"
    then consider "x = CHR ''.''" "t \<noteq> []" | "dotThenSome t" by auto
    then show "\<exists>y c. c \<noteq> [] \<and> x # t = y @ CHR ''.'' # c"
    proof cases
      case 1
      then have "t \<noteq> [] \<and> x # t = [] @ CHR ''.'' # t" by simp
      then show ?thesis by blast
    next
      case 2
      then obtain y c where "c \<noteq> []" "t = y @ CHR ''.'' # c" using Cons.IH by blast
      then have "c \<noteq> [] \<and> x # t = (x # y) @ CHR ''.'' # c" by simp
      then show ?thesis by blast
    qed
  next
    assume "\<exists>y c. c \<noteq> [] \<and> x # t = y @ CHR ''.'' # c"
    then obtain y c where c: "c \<noteq> []" and eq: "x # t = y @ CHR ''.'' # c" by blast
    show "dotThenSome (x # t)"
    proof (cases y)
      case Nil
      with eq c show ?thesis by simp
    next
      case (Cons y0 ys)
      with eq have "t = ys @ CHR ''.'' # c" by simp
      with c Cons.IH have "dotThenSome t" by blast
      then show ?thesis by simp
    qed
  qed
qed

lemma atThenDot_iff:
  "atThenDot t \<longleftrightarrow> (\<exists>x b c. b \<noteq> [] \<and> c \<noteq> [] \<and> t = x @ CHR ''@'' # b @ CHR ''.'' # c)"
proof (induction t)
  case Nil
  then show ?case by simp
next
  case (Cons z t)
  show ?case
  proof
    assume "atThenDot (z # t)"
    then consider "z = CHR ''@''" "t \<noteq> []" "dotThenSome (tl t)" | "atThenDot t" by auto
    then show "\<exists>x b c. b \<noteq> [] \<and> c \<noteq> [] \<and> z # t = x @ CHR ''@'' # b @ CHR ''.'' # c"
    proof cases
      case 1
      then obtain y c where c: "c \<noteq> []" "tl t = y @ CHR ''.'' # c"
        using dotThenSome_iff by blast
      with 1 have "t = hd t # y @ CHR ''.'' # c" by (cases t) auto
      with 1 c have "hd t # y \<noteq> [] \<and> c \<noteq> [] \<and> z # t = [] @ CHR ''@'' # (hd t # y) @ CHR ''.'' # c"
        by simp
      then show ?thesis by blast
    next
      case 2
      then obtain x b c where "b \<noteq> []" "c \<noteq> []" "t = x @ CHR ''@'' # b @ CHR ''.'' # c"
        using Cons.IH by blast
      then have "b \<noteq> [] \<and> c \<noteq> [] \<and> z # t = (z # x) @ CHR ''@'' # b @ CHR ''.'' # c" by simp
      then show ?thesis by blast
    qed
  next
    assume "\<exists>x b c. b \<noteq> [] \<and> c \<noteq> [] \<and> z # t = x @ CHR ''@'' # b @ CHR ''.'' # c"
    then obtain x b c where b: "b \<noteq> []" and c: "c \<noteq> []"
      and eq: "z # t = x @ CHR ''@'' # b @ CHR ''.'' # c" by blast
    show "atThenDot (z # t)"
    proof (cases x)
      case Nil
      with eq have z: "z = CHR ''@''" and t: "t = b @ CHR ''.'' # c" by simp_all
      from b obtain b0 bs where "b = b0 # bs" by (cases b) auto
      with t have "tl t = bs @ CHR ''.'' # c" "t \<noteq> []" by simp_all
      with c have "dotThenSome (tl t)" "t \<noteq> []" using dotThenSome_iff by blast+
      with z show ?thesis by simp
    next
      case (Cons x0 xs)
      with eq have "t = xs @ CHR ''@'' # b @ CHR ''.'' # c" by simp
      with b c Cons.IH have "atThenDot t" by blast
      then show ?thesis by simp
    qed
  qed
qed

lemma emailMatch_iff:
  "emailMatch s \<longleftrightarrow>
     (\<forall>c\<in>set s. \<not> isSpace c) \<and>
     (\<exists>a b c. a \<noteq> [] \<and> b \<noteq> [] \<and> c \<noteq> [] \<and> s = a @ ''@'' @ b @ ''.'' @ c)"
proof -
  have "(s \<noteq> [] \<and> atThenDot (tl s)) \<longleftrightarrow>
     (\<exists>a b c. a \<noteq> [] \<and> b \<noteq> [] \<and> c \<noteq> [] \<and> s = a @ ''@'' @ b @ ''.'' @ c)"
  proof
    assume l: "s \<noteq> [] \<and> atThenDot (tl s)"
    then obtain x b c where "b \<noteq> []" "c \<noteq> []" "tl s = x @ CHR ''@'' # b @ CHR ''.'' # c"
      using atThenDot_iff by blast
    with l have "hd s # x \<noteq> [] \<and> b \<noteq> [] \<and> c \<noteq> [] \<and> s = (hd s # x) @ ''@'' @ b @ ''.'' @ c"
      by (cases s) auto
    then show "\<exists>a b c. a \<noteq> [] \<and> b \<noteq> [] \<and> c \<noteq> [] \<and> s = a @ ''@'' @ b @ ''.'' @ c"
      by blast
  next
    assume "\<exists>a b c. a \<noteq> [] \<and> b \<noteq> [] \<and> c \<noteq> [] \<and> s = a @ ''@'' @ b @ ''.'' @ c"
    then obtain a b c where a: "a \<noteq> []" and b: "b \<noteq> []" and c: "c \<noteq> []"
      and eq: "s = a @ ''@'' @ b @ ''.'' @ c" by blast
    from a obtain a0 as where "a = a0 # as" by (cases a) auto
    with eq have "s \<noteq> []" "tl s = as @ CHR ''@'' # b @ CHR ''.'' # c" by simp_all
    with b c show "s \<noteq> [] \<and> atThenDot (tl s)" using atThenDot_iff by blast
  qed
  then show ?thesis
    by (simp add: emailMatch_def list_all_iff)
qed

lemma dropWhile_idem: "dropWhile P (dropWhile P xs) = dropWhile P xs"
  by (induction xs) auto

lemma trim_idem: "trim (trim s) = trim s"
proof -
  have 1: "dropWhile isSpace (rev (dropWhile isSpace (rev t))) = rev (dropWhile isSpace (rev t))"
    if "t = dropWhile isSpace s" for t
  proof (cases "rev (dropWhile isSpace (rev t))")
    case Nil
    show ?thesis unfolding Nil by simp
  next
    case (Cons x xs)
    then have "dropWhile isSpace (rev t) \<noteq> []" by auto
    then obtain r where r: "rev t = r @ dropWhile isSpace (rev t)"
      by (metis takeWhile_dropWhile_id)
    have "t \<noteq> []" using Cons by auto
    then have "\<not> isSpace (hd t)" using that by (metis hd_dropWhile)
    moreover have "hd (rev (dropWhile isSpace (rev t))) = hd t"
    proof -
      have "t = rev (dropWhile isSpace (rev t)) @ rev (takeWhile isSpace (rev t))"
        by (metis rev_append rev_rev_ident takeWhile_dropWhile_id)
      then show ?thesis using Cons by (metis hd_append2 list.distinct(1))
    qed
    ultimately show ?thesis using Cons by simp
  qed
  show ?thesis
    unfolding trim_def using 1 [OF refl] by (simp add: dropWhile_idem)
qed



subsection \<open>Every handler keeps the database consistent\<close>

lemma distinct_map_remove1: "distinct (map f xs) \<Longrightarrow> distinct (map f (remove1 x xs))"
  by (induction xs) (auto simp: image_iff dest: notin_set_remove1)

lemma map_key_updateOne: "(\<And>x. f (g x) = f x) \<Longrightarrow> map f (updateOne P g xs) = map f xs"
  by (induction xs) auto

lemma distinct_map_replace:
  "distinct (map k xs) \<Longrightarrow> distinct (map e xs) \<Longrightarrow>
   \<forall>x\<in>set xs. k x \<noteq> i \<longrightarrow> e x \<noteq> v \<Longrightarrow> (\<And>x. e (g x) = v) \<Longrightarrow>
   distinct (map e (map (\<lambda>x. if k x = i then g x else x) xs))"
proof (induction xs)
  case Nil
  then show ?case by simp
next
  case (Cons x xs)
  show ?case
  proof (cases "k x = i")
    case True
    with Cons.prems(1) have rest: "\<forall>y\<in>set xs. k y \<noteq> i" by (auto simp: image_iff)
    then have "map (\<lambda>x. if k x = i then g x else x) xs = xs" by (rule map_unless_key)
    moreover have "v \<notin> e ` set xs" using rest Cons.prems(3) by auto
    ultimately show ?thesis using True Cons.prems(2,4) by simp
  next
    case False
    have "e (if k y = i then g y else y) \<noteq> e x" if "y \<in> set xs" for y
    proof (cases "k y = i")
      case True
      then show ?thesis using Cons.prems(3,4) False by auto
    next
      case other: False
      have "e y \<noteq> e x" using that Cons.prems(2) by (auto simp: image_iff)
      then show ?thesis using other by simp
    qed
    note differs = this
    have "e x \<notin> set (map e (map (\<lambda>x. if k x = i then g x else x) xs))"
    proof
      assume "e x \<in> set (map e (map (\<lambda>x. if k x = i then g x else x) xs))"
      then obtain y where "y \<in> set xs" "e x = e (if k y = i then g y else y)"
        by auto
      then show False using differs [of y] by simp
    qed
    moreover have "distinct (map e (map (\<lambda>x. if k x = i then g x else x) xs))"
      using Cons by simp
    ultimately show ?thesis using False
      by (simp only: list.map if_False distinct.simps simp_thms)
  qed
qed

lemma consistent_trace [simp]: "consistent (s\<lparr>trace := t\<rparr>) = consistent s"
  by (simp add: consistent_def)

lemma consistent_nextId [simp]: "consistent (s\<lparr>nextId := n\<rparr>) = consistent s"
  by (simp add: consistent_def)

lemma User_create_consistent: "consistent s \<Longrightarrow> consistent (fst (User_create obj s))"
  by (auto simp add: User_create_def Let_def consistent_def logCall_def trim_idem image_iff)

lemma Post_create_consistent: "consistent s \<Longrightarrow> consistent (fst (Post_create obj s))"
  by (auto simp add: Post_create_def Let_def consistent_def logCall_def image_iff
        split: option.splits reference.splits)

lemma User_save_consistent:
  assumes "consistent s" and "trim (doc_email d) = doc_email d"
  shows "consistent (fst (User_save d s))"
proof -
  let ?g = "\<lambda>u. u\<lparr>user_firstName :=
                              (if ''firstName'' \<in> set (doc_modified d) then doc_firstName d
                               else user_firstName u),
                            user_lastName :=
                              (if ''lastName'' \<in> set (doc_modified d) then doc_lastName d
                               else user_lastName u),
                            user_email :=
                              (if ''email'' \<in> set (doc_modified d) then doc_email d
                               else user_email u),
                            user_updatedAt := clock s\<rparr>"
  let ?xs = "updateOne (\<lambda>u. user_id u = doc_id d) ?g (users s)"
  have ids: "distinct (map user_id (users s))" and emails: "distinct (map user_email (users s))"
    and trimmed: "list_all (\<lambda>u. trim (user_email u) = user_email u) (users s)"
    and posts: "distinct (map post_id (posts s))"
    using assms(1) by (simp_all add: consistent_def)
  have eq: "?xs = map (\<lambda>u. if user_id u = doc_id d then ?g u else u) (users s)"
    using updateOne_distinct [OF ids] by simp
  have 1: "distinct (map user_id ?xs)"
    using ids by (simp add: map_key_updateOne)
  have 2: "distinct (map user_email ?xs)"
    if "''email'' \<in> set (doc_modified d) \<longrightarrow>
       \<not> (\<exists>u\<in>set (users s). user_id u \<noteq> doc_id d \<and> user_email u = doc_email d)"
  proof (cases "''email'' \<in> set (doc_modified d)")
    case True
    then show ?thesis
      unfolding eq using that distinct_map_replace [OF ids emails, of "doc_id d" "doc_email d" ?g]
      by auto
  next
    case False
    then have "map user_email ?xs = map user_email (users s)"
      by (simp add: map_key_updateOne)
    then show ?thesis using emails by simp
  qed
  have 3: "list_all (\<lambda>u. trim (user_email u) = user_email u) ?xs"
    unfolding eq using trimmed assms(2) by (auto simp: list_all_iff)
  show ?thesis
    using assms(1) 1 2 3 posts
    by (auto simp add: User_save_def Let_def logCall_def consistent_def simp del: updateOne.simps)
qed

lemma Post_save_consistent: "consistent s \<Longrightarrow> Post_save d s = (s', r) \<Longrightarrow> consistent s'"
  by (auto simp add: Post_save_def Let_def logCall_def consistent_def map_key_updateOne
        split: if_splits)

lemma User_findByIdAndDelete_consistent:
  "consistent s \<Longrightarrow> consistent (fst (User_findByIdAndDelete i s))"
  by (auto simp add: User_findByIdAndDelete_def logCall_def consistent_def distinct_map_remove1
        list_all_iff split: option.splits dest: notin_set_remove1)

lemma Post_findByIdAndDelete_consistent:
  "consistent s \<Longrightarrow> consistent (fst (Post_findByIdAndDelete i s))"
  by (auto simp add: Post_findByIdAndDelete_def logCall_def consistent_def distinct_map_remove1
        split: option.splits)

lemma set_email_trimmed:
  "trim (doc_email d) = doc_email d \<Longrightarrow> trim (doc_email (set_email v d)) = doc_email (set_email v d)"
  by (simp add: set_email_def trim_idem)

lemma hydrateUser_trimmed:
  "consistent s \<Longrightarrow> List.find P (users s) = Some u \<Longrightarrow>
   trim (doc_email (set_lastName l (set_firstName f (hydrateUser u)))) =
     doc_email (set_lastName l (set_firstName f (hydrateUser u)))"
  by (auto simp add: consistent_def list_all_iff hydrateUser_def set_lastName_def
        set_firstName_def dest: find_SomeD)

theorem handlers_consistent:
  fixes ub :: "'a UserType_scheme" and pb :: "'b PostType_scheme"
  assumes "consistent s"
  shows "consistent (fst (getUsers s))" and "consistent (fst (createUser ub s))"
    and "consistent (fst (getUserById i s))" and "consistent (fst (updateUser i ub s))"
    and "consistent (fst (deleteUser i s))" and "consistent (fst (getPosts s))"
    and "consistent (fst (createPost pb s))" and "consistent (fst (getPostById i s))"
    and "consistent (fst (updatePost i pb s))" and "consistent (fst (deletePost i s))"
proof -
  show "consistent (fst (getUsers s))"
    using assms by (simp add: getUsers_def User_find_def logCall_def)
  show "consistent (fst (createUser ub s))"
    using assms
      User_create_consistent [of "logCall User FindOne s"
        "\<lparr>firstName = firstName ub, lastName = lastName ub, email = email ub,
          password = password ub, isActive = isActive ub\<rparr>"]
    by (auto simp add: createUser_def User_findOne_def logCall_def
          split: option.splits sum.splits prod.splits)
  show "consistent (fst (getUserById i s))"
    using assms
    by (auto simp add: getUserById_def User_findById_def logCall_def split: option.splits)
  show "consistent (fst (updateUser i ub s))"
  proof (cases "User_findById i s")
    case (Pair s1 r)
    then have s1: "s1 = logCall User FindById s"
      by (auto simp add: User_findById_def split: option.splits)
    then have c1: "consistent s1" using assms by (simp add: logCall_def)
    show ?thesis
    proof (cases r)
      case (Inl e)
      with Pair c1 assms show ?thesis by (simp add: updateUser_def)
    next
      case (Inr found)
      show ?thesis
      proof (cases found)
        case None
        with Inr Pair c1 assms show ?thesis by (simp add: updateUser_def)
      next
        case (Some d)
        then obtain u oid where "List.find (\<lambda>u. user_id u = oid) (users s) = Some u"
          and d: "d = hydrateUser u"
          using Pair Inr by (auto simp add: User_findById_def split: option.splits)
        then have "trim (doc_email (set_email (str (email ub))
              (set_lastName (str (lastName ub)) (set_firstName (str (firstName ub)) d)))) =
            doc_email (set_email (str (email ub))
              (set_lastName (str (lastName ub)) (set_firstName (str (firstName ub)) d)))"
          using hydrateUser_trimmed [OF assms] set_email_trimmed d by blast
        from User_save_consistent [OF c1 this] Pair Inr Some assms show ?thesis
          by (auto simp add: updateUser_def split: sum.splits prod.splits)
      qed
    qed
  qed
  show "consistent (fst (deleteUser i s))"
    using User_findByIdAndDelete_consistent [OF assms, of i]
    by (auto simp add: deleteUser_def split: option.splits sum.splits prod.splits)
  show "consistent (fst (getPosts s))"
    using assms by (simp add: getPosts_def Post_find_populate_def logCall_def)
  show "consistent (fst (createPost pb s))"
    using assms
      Post_create_consistent [OF assms, of "\<lparr>title = title pb, content = content pb, userId = userId pb\<rparr>"]
    by (auto simp add: createPost_def populate_def logCall_def split: sum.splits prod.splits)
  show "consistent (fst (getPostById i s))"
    using assms
    by (auto simp add: getPostById_def Post_findById_populate_def Post_findById_def
          populate_def logCall_def split: option.splits)
  show "consistent (fst (updatePost i pb s))"
  proof (cases "Post_findById i s")
    case (Pair s1 r)
    then have "s1 = logCall Post FindById s"
      by (auto simp add: Post_findById_def split: option.splits)
    then have c1: "consistent s1" using assms by (simp add: logCall_def)
    show ?thesis
      using Pair c1 assms
      by (auto simp add: updatePost_def populate_def logCall_def
            split: option.splits sum.splits prod.splits dest: Post_save_consistent [OF c1])
  qed
  show "consistent (fst (deletePost i s))"
    using Post_findByIdAndDelete_consistent [OF assms, of i]
    by (auto simp add: deletePost_def split: option.splits sum.splits prod.splits)
qed

text \<open>In a consistent database the stored emails are trimmed: a stored email that is the
  email of the request, as sent, is the one the query of \<^verbatim>\<open>createUser\<close> looks for.\<close>

lemma stored_email_is_trimmed:
  fixes b :: "'a UserType_scheme"
  assumes "consistent s" and "u \<in> set (users s)" and "email b = Some (user_email u)"
  shows "user_email u = trim (str (email b))"
  using assms by (auto simp add: consistent_def list_all_iff str_def)

lemma blog_consistent: "consistent blog" "consistent blog2"
  by (simp_all add: consistent_def blog_def blog2_def alice_def carol_def hello_def orphan_def
        reply_def trim_def isSpace_def)

subsection \<open>Running the handlers on the example\<close>

text \<open>The definitions a run of a handler on the example data unfolds.\<close>

lemmas run_defs =
  truthy_def str_def trim_def isSpace_def emailMatch_def castMessage_def
  userSchema_validate_def postSchema_validate_def hydrateUser_def hydratePost_def
  User_find_def User_findOne_def User_create_def User_findById_def User_save_def
  User_findByIdAndDelete_def set_firstName_def set_lastName_def set_email_def
  castRef_def Post_create_def authorOf_def populated_def populate_def Post_find_populate_def
  Post_findById_def Post_findById_populate_def set_title_def set_content_def set_userId_def
  Post_save_def Post_findByIdAndDelete_def Let_def response_defs

lemmas example_defs = alice_def carol_def hello_def orphan_def reply_def blog_def blog2_def


subsection \<open>Creating a user\<close>

text \<open>
  Claim C6. A create-User request that lacks one of \<^verbatim>\<open>firstName\<close>, \<^verbatim>\<open>lastName\<close>,
  \<^verbatim>\<open>email\<close>, \<^verbatim>\<open>password\<close> is answered with status 400 and a message that names the
  four fields, and the state is left as it was: no Mongoose call is made. The test is one
  of presence only: a request in which the four fields are present goes on to the
  database, whatever the shape of its email and the length of its password.
\<close>

theorem createUser_missing_field:
  fixes b :: "'a UserType_scheme"
  shows "(\<not> truthy (firstName b) \<or> \<not> truthy (lastName b) \<or> \<not> truthy (email b) \<or>
          \<not> truthy (password b) \<longrightarrow>
            createUser b s =
              (s, \<lparr>status = 400,
                   body = ErrorJson ''firstName, lastName, email, and password are required''\<rparr>))
       \<and> (truthy (firstName b) \<and> truthy (lastName b) \<and> truthy (email b) \<and>
          truthy (password b) \<longrightarrow>
            (\<exists>rest. trace (fst (createUser b s)) = trace s @ (User, FindOne) # rest))"
  by (auto simp add: createUser_def User_findOne_def User_create_def Let_def response_defs
        split: option.splits sum.splits prod.splits)

text \<open>The sign-up without a password is refused before the database is touched; the one
  with a malformed email and a short password reaches it and fails there.\<close>

theorem createUser_missing_field_witness:
  "\<not> truthy (password signupNoPassword) \<and>
   createUser signupNoPassword blog =
     (blog, \<lparr>status = 400,
             body = ErrorJson ''firstName, lastName, email, and password are required''\<rparr>) \<and>
   truthy (firstName signupBadFormat) \<and> truthy (lastName signupBadFormat) \<and>
   truthy (email signupBadFormat) \<and> truthy (password signupBadFormat) \<and>
   trace (fst (createUser signupBadFormat blog)) = [(User, FindOne), (User, Create)] \<and>
   status (snd (createUser signupBadFormat blog)) = 500"
proof -
  have missing: "\<not> truthy (password signupNoPassword)"
    by (simp add: signupNoPassword_def truthy_def)
  have present: "truthy (firstName signupBadFormat)" "truthy (lastName signupBadFormat)"
    "truthy (email signupBadFormat)" "truthy (password signupBadFormat)"
    by (simp_all add: signupBadFormat_def truthy_def)
  have "createUser signupNoPassword blog =
     (blog, \<lparr>status = 400,
             body = ErrorJson ''firstName, lastName, email, and password are required''\<rparr>)"
    using createUser_missing_field [of signupNoPassword blog] missing by blast
  moreover obtain rest where
    "trace (fst (createUser signupBadFormat blog)) = trace blog @ (User, FindOne) # rest"
    using createUser_missing_field [of signupBadFormat blog] present by blast
  moreover have "createUser signupBadFormat blog =
     (blog\<lparr>nextId := 5, trace := [(User, FindOne), (User, Create)]\<rparr>,
      \<lparr>status = 500,
       body = FailureJson (ValidationError
                [''Email is not valid'', ''Password must be at least 6 characters long''])\<rparr>)"
    by (simp add: createUser_def User_findOne_def User_create_def userSchema_validate_def
          emailMatch_def trim_def isSpace_def str_def truthy_def Let_def response_defs
          signupBadFormat_def blog_def alice_def)
  ultimately show ?thesis
    using missing present by simp
qed

text \<open>
  Claim C1. When the four required fields of a create-User request are present and a user
  with the same email is stored, the answer is status 400 with
  \<^verbatim>\<open>{"error": "User already exists"}\<close>. The only call made is the read \<^verbatim>\<open>User.findOne\<close>:
  the collections are as before and \<^verbatim>\<open>User.create\<close> is not called. Without such a
  user the handler makes the same read first and the write \<^verbatim>\<open>User.create\<close> after it.
  Emails are compared as the schema stores them, trimmed: Mongoose runs the \<^verbatim>\<open>trim\<close>
  setter on the filter of the query too. By \<open>stored_email_is_trimmed\<close> this covers a
  stored email that is literally the one sent.
\<close>

theorem createUser_duplicate_email:
  fixes b :: "'a UserType_scheme"
  assumes "truthy (firstName b)" and "truthy (lastName b)" and "truthy (email b)"
    and "truthy (password b)"
  shows "((\<exists>u\<in>set (users s). user_email u = trim (str (email b))) \<longrightarrow>
            createUser b s =
              (s\<lparr>trace := trace s @ [(User, FindOne)]\<rparr>,
               \<lparr>status = 400, body = ErrorJson ''User already exists''\<rparr>))
       \<and> (\<not> (\<exists>u\<in>set (users s). user_email u = trim (str (email b))) \<longrightarrow>
            trace (fst (createUser b s)) = trace s @ [(User, FindOne), (User, Create)])"
proof (cases "List.find (\<lambda>u. user_email u = trim (str (email b))) (users s)")
  case None
  then have "\<not> (\<exists>u\<in>set (users s). user_email u = trim (str (email b)))"
    by (simp add: find_None_set)
  moreover have "trace (fst (createUser b s)) = trace s @ [(User, FindOne), (User, Create)]"
    using assms None
    by (simp add: createUser_def User_findOne_def User_create_def Let_def response_defs)
  ultimately show ?thesis by blast
next
  case (Some u)
  then have "\<exists>u\<in>set (users s). user_email u = trim (str (email b))"
    using find_SomeD by fastforce
  moreover have "createUser b s =
              (s\<lparr>trace := trace s @ [(User, FindOne)]\<rparr>,
               \<lparr>status = 400, body = ErrorJson ''User already exists''\<rparr>)"
    using assms Some
    by (simp add: createUser_def User_findOne_def response_defs)
  ultimately show ?thesis by blast
qed

text \<open>Signing Alice up again is refused after the read; signing Bob up reads, then
  writes.\<close>

theorem createUser_duplicate_email_witness:
  "truthy (firstName signupAgain) \<and> truthy (lastName signupAgain) \<and>
   truthy (email signupAgain) \<and> truthy (password signupAgain) \<and>
   alice \<in> set (users blog) \<and> user_email alice = trim (str (email signupAgain)) \<and>
   createUser signupAgain blog =
     (blog\<lparr>trace := [(User, FindOne)]\<rparr>,
      \<lparr>status = 400, body = ErrorJson ''User already exists''\<rparr>) \<and>
   truthy (firstName signupBob) \<and> truthy (lastName signupBob) \<and>
   truthy (email signupBob) \<and> truthy (password signupBob) \<and>
   users blog = [alice] \<and> user_email alice \<noteq> trim (str (email signupBob)) \<and>
   trace (fst (createUser signupBob blog)) = [(User, FindOne), (User, Create)]"
proof -
  have again: "truthy (firstName signupAgain)" "truthy (lastName signupAgain)"
    "truthy (email signupAgain)" "truthy (password signupAgain)"
    by (simp_all add: signupAgain_def truthy_def)
  have bob: "truthy (firstName signupBob)" "truthy (lastName signupBob)"
    "truthy (email signupBob)" "truthy (password signupBob)"
    by (simp_all add: signupBob_def truthy_def)
  have stored: "alice \<in> set (users blog)" "users blog = [alice]"
    by (simp_all add: blog_def)
  have same: "user_email alice = trim (str (email signupAgain))"
    by (simp add: alice_def signupAgain_def str_def trim_def isSpace_def)
  have other: "user_email alice \<noteq> trim (str (email signupBob))"
    by (simp add: alice_def signupBob_def str_def trim_def isSpace_def)
  have "createUser signupAgain blog =
     (blog\<lparr>trace := trace blog @ [(User, FindOne)]\<rparr>,
      \<lparr>status = 400, body = ErrorJson ''User already exists''\<rparr>)"
    using createUser_duplicate_email [OF again, of blog] stored(1) same by blast
  moreover have "trace (fst (createUser signupBob blog)) =
      trace blog @ [(User, FindOne), (User, Create)]"
    using createUser_duplicate_email [OF bob, of blog] stored(2) other by simp
  moreover have "trace blog = []"
    by (simp add: blog_def)
  ultimately show ?thesis
    using again bob stored same other by simp
qed

subsection \<open>Updating a user\<close>

text \<open>What \<^verbatim>\<open>updateUser\<close> does with a request the schema accepts.\<close>

lemma updateUser_accepts:
  fixes b :: "'a UserType_scheme" and b' :: "'c UserType_scheme"
  assumes "castObjectId i = Some oid"
    and "u \<in> set (users s)" and "user_id u = oid" and "distinct (map user_id (users s))"
    and "firstName b = Some fn" and "lastName b = Some ln" and "email b = Some em"
    and "trim fn \<noteq> []" and "trim ln \<noteq> []" and "emailMatch (trim em)"
    and "\<forall>v\<in>set (users s). user_id v \<noteq> oid \<longrightarrow> user_email v \<noteq> trim em"
  shows "status (snd (updateUser i b s)) = 200
       \<and> users (fst (updateUser i b s)) =
           map (\<lambda>v. if user_id v = oid
                     then v\<lparr>user_firstName := trim fn, user_lastName := trim ln,
                            user_email := trim em,
                            user_updatedAt :=
                              (if trim fn = user_firstName v \<and> trim ln = user_lastName v \<and>
                                  trim em = user_email v
                               then user_updatedAt v else clock s)\<rparr>
                     else v) (users s)
       \<and> posts (fst (updateUser i b s)) = posts s
       \<and> (firstName b' = firstName b \<and> lastName b' = lastName b \<and> email b' = email b \<longrightarrow>
            updateUser i b' s = updateUser i b s)"
proof -
  have t: "truthy (firstName b)" "truthy (lastName b)" "truthy (email b)"
    using assms truthy_trim [of "firstName b"] truthy_trim [of "lastName b"]
      truthy_trim [of "email b"] emailMatch_nonempty [of "trim em"]
    by (simp_all add: str_def)
  have found: "List.find (\<lambda>x. user_id x = oid) (users s) = Some u"
    using find_distinct [OF assms(4) assms(2)] assms(3) by simp
  have ex: "\<exists>x\<in>set (users s). user_id x = oid"
    using assms(2,3) by blast
  have nodup: "\<not> (\<exists>x\<in>set (users s). user_id x \<noteq> oid \<and> user_email x = trim em)"
    using assms(11) by blast
  have same: "\<And>x. x \<in> set (users s) \<Longrightarrow> user_id x = oid \<Longrightarrow> x = u"
    using assms(2,3,4) by (metis distinct_map inj_onD)
  have valid: "userSchema_validate (trim fn) (trim ln) (trim em) None = []"
    using assms(8,9,10) emailMatch_nonempty [of "trim em"]
    by (simp add: userSchema_validate_def)
  define d where "d = set_email em (set_lastName ln (set_firstName fn (hydrateUser u)))"
  define s1 where "s1 = logCall User FindById s"
  define same_values where "same_values \<longleftrightarrow>
     trim fn = user_firstName u \<and> trim ln = user_lastName u \<and> trim em = user_email u"
  define g :: "user_doc \<Rightarrow> user_doc" where
    "g = (\<lambda>v. v\<lparr>user_firstName := trim fn, user_lastName := trim ln,
                 user_email := trim em,
                 user_updatedAt :=
                   (if trim fn = user_firstName v \<and> trim ln = user_lastName v \<and>
                       trim em = user_email v
                    then user_updatedAt v else clock s)\<rparr>)"
  have d_fields: "doc_id d = oid" "doc_firstName d = trim fn" "doc_lastName d = trim ln"
    "doc_email d = trim em" "doc_password d = None"
    using assms(3)
    by (simp_all add: d_def set_email_def set_lastName_def set_firstName_def hydrateUser_def)
  have m1: "(''firstName'' \<in> set (doc_modified d)) = (trim fn \<noteq> user_firstName u)"
    by (simp add: d_def set_email_def set_lastName_def set_firstName_def hydrateUser_def)
  have m2: "(''lastName'' \<in> set (doc_modified d)) = (trim ln \<noteq> user_lastName u)"
    by (simp add: d_def set_email_def set_lastName_def set_firstName_def hydrateUser_def)
  have m3: "(''email'' \<in> set (doc_modified d)) = (trim em \<noteq> user_email u)"
    by (simp add: d_def set_email_def set_lastName_def set_firstName_def hydrateUser_def)
  have m0: "(doc_modified d = []) = same_values"
    by (simp add: same_values_def d_def set_email_def set_lastName_def set_firstName_def
          hydrateUser_def)
  have s1: "users s1 = users s" "posts s1 = posts s" "clock s1 = clock s"
    by (simp_all add: s1_def logCall_def)
  have upd: "updateUser i b s =
      (case User_save d s1 of (s2, Inl e) \<Rightarrow> (s2, catch e)
       | (s2, Inr saved) \<Rightarrow> (s2, json (UserJson saved)))"
    using t found assms(1,5,6,7)
    by (simp add: updateUser_def User_findById_def d_def s1_def str_def)
  have g_u: "g u = u" if same_values
    using that by (simp add: g_def same_values_def)
  have unchanged: "map (\<lambda>v. if user_id v = oid then g v else v) (users s) = users s"
    if same_values
  proof (rule map_idI)
    fix x assume "x \<in> set (users s)"
    then show "(if user_id x = oid then g x else x) = x"
      using same g_u [OF that] by auto
  qed
  have changed: "map (\<lambda>v. if user_id v = oid then
            v\<lparr>user_firstName := (if ''firstName'' \<in> set (doc_modified d) then doc_firstName d
                               else user_firstName v),
              user_lastName := (if ''lastName'' \<in> set (doc_modified d) then doc_lastName d
                               else user_lastName v),
              user_email := (if ''email'' \<in> set (doc_modified d) then doc_email d
                               else user_email v),
              user_updatedAt := clock s\<rparr> else v) (users s) =
          map (\<lambda>v. if user_id v = oid then g v else v) (users s)"
    if "\<not> same_values"
  proof (rule map_cong [OF refl])
    fix x assume x: "x \<in> set (users s)"
    show "(if user_id x = oid then
            x\<lparr>user_firstName := (if ''firstName'' \<in> set (doc_modified d) then doc_firstName d
                               else user_firstName x),
              user_lastName := (if ''lastName'' \<in> set (doc_modified d) then doc_lastName d
                               else user_lastName x),
              user_email := (if ''email'' \<in> set (doc_modified d) then doc_email d
                               else user_email x),
              user_updatedAt := clock s\<rparr> else x) = (if user_id x = oid then g x else x)"
    proof (cases "user_id x = oid")
      case True
      then have "x = u" using same x by blast
      then show ?thesis
        using that True by (auto simp add: m1 m2 m3 d_fields g_def same_values_def)
    next
      case False
      then show ?thesis by simp
    qed
  qed
  have save: "status (snd (case User_save d s1 of (s2, Inl e) \<Rightarrow> (s2, catch e)
       | (s2, Inr saved) \<Rightarrow> (s2, json (UserJson saved)))) = 200
     \<and> users (fst (case User_save d s1 of (s2, Inl e) \<Rightarrow> (s2, catch e)
       | (s2, Inr saved) \<Rightarrow> (s2, json (UserJson saved)))) =
         map (\<lambda>v. if user_id v = oid then g v else v) (users s)
     \<and> posts (fst (case User_save d s1 of (s2, Inl e) \<Rightarrow> (s2, catch e)
       | (s2, Inr saved) \<Rightarrow> (s2, json (UserJson saved)))) = posts s"
  proof (cases same_values)
    case True
    then show ?thesis
      using valid unchanged
      by (simp add: User_save_def Let_def d_fields m0 s1 response_defs)
  next
    case False
    then show ?thesis
      using valid ex nodup changed updateOne_distinct [OF assms(4)]
      by (simp add: User_save_def Let_def d_fields m0 s1 response_defs)
  qed
  have indep: "updateUser i b' s = updateUser i b s"
    if "firstName b' = firstName b \<and> lastName b' = lastName b \<and> email b' = email b"
    using that by (simp add: updateUser_def)
  show ?thesis
    using save indep unfolding upd g_def by blast
qed

text \<open>With the three fields present and the id that of a stored user, the handler gets
  as far as \<^verbatim>\<open>user.save()\<close>, called on the loaded document after the three
  assignments.\<close>

lemma updateUser_saves:
  fixes b :: "'a UserType_scheme"
  assumes "castObjectId i = Some oid"
    and "u \<in> set (users s)" and "user_id u = oid" and "distinct (map user_id (users s))"
    and "firstName b = Some fn" and "lastName b = Some ln" and "email b = Some em"
    and "fn \<noteq> []" and "ln \<noteq> []" and "em \<noteq> []"
  shows "updateUser i b s =
      (case User_save (set_email em (set_lastName ln (set_firstName fn (hydrateUser u))))
              (logCall User FindById s) of
         (s2, Inl e) \<Rightarrow> (s2, catch e)
       | (s2, Inr saved) \<Rightarrow> (s2, json (UserJson saved)))"
proof -
  have found: "List.find (\<lambda>x. user_id x = oid) (users s) = Some u"
    using find_distinct [OF assms(4) assms(2)] assms(3) by simp
  show ?thesis
    using found assms(1,5-10)
    by (simp add: updateUser_def User_findById_def str_def truthy_def)
qed

lemma assigned_fields:
  "doc_id (set_email em (set_lastName ln (set_firstName fn (hydrateUser u)))) = user_id u"
  "doc_firstName (set_email em (set_lastName ln (set_firstName fn (hydrateUser u)))) = trim fn"
  "doc_lastName (set_email em (set_lastName ln (set_firstName fn (hydrateUser u)))) = trim ln"
  "doc_email (set_email em (set_lastName ln (set_firstName fn (hydrateUser u)))) = trim em"
  "doc_password (set_email em (set_lastName ln (set_firstName fn (hydrateUser u)))) = None"
  "(''email'' \<in> set (doc_modified
       (set_email em (set_lastName ln (set_firstName fn (hydrateUser u)))))) =
     (trim em \<noteq> user_email u)"
  "(doc_modified (set_email em (set_lastName ln (set_firstName fn (hydrateUser u)))) = []) =
     (trim fn = user_firstName u \<and> trim ln = user_lastName u \<and> trim em = user_email u)"
  by (simp_all add: set_email_def set_lastName_def set_firstName_def hydrateUser_def)

text \<open>A name of blanks or an email that does not match the pattern fails the validation
  of the save; an email another user has fails the write on the unique index. In both
  cases nothing is written.\<close>

lemma updateUser_rejects_invalid:
  fixes b :: "'a UserType_scheme"
  assumes "castObjectId i = Some oid"
    and "u \<in> set (users s)" and "user_id u = oid" and "distinct (map user_id (users s))"
    and "firstName b = Some fn" and "lastName b = Some ln" and "email b = Some em"
    and "fn \<noteq> []" and "ln \<noteq> []" and "em \<noteq> []"
    and "trim fn = [] \<or> trim ln = [] \<or> \<not> emailMatch (trim em)"
  shows "\<exists>errs. errs \<noteq> [] \<and>
           updateUser i b s =
             (s\<lparr>trace := trace s @ [(User, FindById), (User, Save)]\<rparr>,
              \<lparr>status = 500, body = FailureJson (ValidationError errs)\<rparr>)"
proof -
  have bad: "userSchema_validate (trim fn) (trim ln) (trim em) None \<noteq> []"
    using assms(11) by (auto simp add: userSchema_validate_def)
  have "updateUser i b s =
          (s\<lparr>trace := trace s @ [(User, FindById), (User, Save)]\<rparr>,
           \<lparr>status = 500,
            body = FailureJson (ValidationError
                     (userSchema_validate (trim fn) (trim ln) (trim em) None))\<rparr>)"
    unfolding updateUser_saves [OF assms(1-10)] using bad
    by (simp add: User_save_def Let_def assigned_fields response_defs)
  with bad show ?thesis by blast
qed

lemma updateUser_rejects_taken:
  fixes b :: "'a UserType_scheme"
  assumes "castObjectId i = Some oid"
    and "u \<in> set (users s)" and "user_id u = oid" and "distinct (map user_id (users s))"
    and "firstName b = Some fn" and "lastName b = Some ln" and "email b = Some em"
    and "trim fn \<noteq> []" and "trim ln \<noteq> []" and "emailMatch (trim em)"
    and "distinct (map user_email (users s))"
    and "\<exists>v\<in>set (users s). user_id v \<noteq> oid \<and> user_email v = trim em"
  shows "updateUser i b s =
           (s\<lparr>trace := trace s @ [(User, FindById), (User, Save)]\<rparr>,
            \<lparr>status = 500, body = FailureJson DuplicateKey\<rparr>)"
proof -
  have present: "fn \<noteq> []" "ln \<noteq> []" "em \<noteq> []"
    using assms(8-10) emailMatch_nonempty [of "trim em"] by (auto simp: trim_def)
  have valid: "userSchema_validate (trim fn) (trim ln) (trim em) None = []"
    using assms(8-10) emailMatch_nonempty [of "trim em"]
    by (simp add: userSchema_validate_def)
  obtain v where v: "v \<in> set (users s)" "user_id v \<noteq> oid" "user_email v = trim em"
    using assms(12) by blast
  then have "v \<noteq> u" using assms(3) by auto
  then have changed: "trim em \<noteq> user_email u"
    using v assms(2,11) by (metis distinct_map inj_onD)
  have ex: "\<exists>x\<in>set (users s). user_id x = user_id u"
    using assms(2) by blast
  have taken: "\<exists>x\<in>set (users s). user_id x \<noteq> user_id u \<and> user_email x = trim em"
    using v assms(3) by blast
  show ?thesis
    unfolding updateUser_saves [OF assms(1-7) present]
    using valid changed ex taken
    by (simp add: User_save_def Let_def assigned_fields response_defs)
qed

text \<open>
  Claim C3, as amended. Take an update-User request for the id of a stored user in which
  \<^verbatim>\<open>firstName\<close>, \<^verbatim>\<open>lastName\<close> and \<^verbatim>\<open>email\<close> are present. When they pass the schema (the
  names are not blank, the trimmed email has the shape the schema asks for and belongs to
  no other user), the answer is status 200, and in the stored record exactly these three
  fields hold the trimmed values of the request; \<^verbatim>\<open>_id\<close>, \<^verbatim>\<open>password\<close>, \<^verbatim>\<open>isActive\<close> and
  \<^verbatim>\<open>createdAt\<close> are as they were, and \<^verbatim>\<open>updatedAt\<close> is set to the time of the save when
  one of the three values changed. The other users and the posts are as they were. When
  a name is blank or the email does not have that shape, or when the email is that of
  another user, the save fails: the answer is status 500 and the collections are as they
  were. What else the body holds has no effect: two bodies that agree on the three fields
  give the same result.
\<close>

theorem updateUser_frame:
  fixes b :: "'a UserType_scheme" and b' :: "'c UserType_scheme"
  assumes "castObjectId i = Some oid"
    and "u \<in> set (users s)" and "user_id u = oid" and "distinct (map user_id (users s))"
    and "firstName b = Some fn" and "lastName b = Some ln" and "email b = Some em"
  shows "(trim fn \<noteq> [] \<and> trim ln \<noteq> [] \<and> emailMatch (trim em) \<and>
          (\<forall>v\<in>set (users s). user_id v \<noteq> oid \<longrightarrow> user_email v \<noteq> trim em) \<longrightarrow>
            status (snd (updateUser i b s)) = 200 \<and>
            users (fst (updateUser i b s)) =
              map (\<lambda>v. if user_id v = oid
                        then v\<lparr>user_firstName := trim fn, user_lastName := trim ln,
                               user_email := trim em,
                               user_updatedAt :=
                                 (if trim fn = user_firstName v \<and> trim ln = user_lastName v \<and>
                                     trim em = user_email v
                                  then user_updatedAt v else clock s)\<rparr>
                        else v) (users s) \<and>
            posts (fst (updateUser i b s)) = posts s)
       \<and> (fn \<noteq> [] \<and> ln \<noteq> [] \<and> em \<noteq> [] \<and>
          (trim fn = [] \<or> trim ln = [] \<or> \<not> emailMatch (trim em)) \<longrightarrow>
            (\<exists>errs. errs \<noteq> [] \<and>
               updateUser i b s =
                 (s\<lparr>trace := trace s @ [(User, FindById), (User, Save)]\<rparr>,
                  \<lparr>status = 500, body = FailureJson (ValidationError errs)\<rparr>)))
       \<and> (trim fn \<noteq> [] \<and> trim ln \<noteq> [] \<and> emailMatch (trim em) \<and>
          distinct (map user_email (users s)) \<and>
          (\<exists>v\<in>set (users s). user_id v \<noteq> oid \<and> user_email v = trim em) \<longrightarrow>
            updateUser i b s =
              (s\<lparr>trace := trace s @ [(User, FindById), (User, Save)]\<rparr>,
               \<lparr>status = 500, body = FailureJson DuplicateKey\<rparr>))
       \<and> (firstName b' = firstName b \<and> lastName b' = lastName b \<and> email b' = email b \<longrightarrow>
            updateUser i b' s = updateUser i b s)"
proof -
  have indep: "updateUser i b' s = updateUser i b s"
    if "firstName b' = firstName b \<and> lastName b' = lastName b \<and> email b' = email b"
    using that by (simp add: updateUser_def)
  show ?thesis
    using updateUser_accepts [OF assms, where b' = b']
      updateUser_rejects_invalid [OF assms]
      updateUser_rejects_taken [OF assms]
      indep
    by blast
qed

text \<open>The rename of Alice, sent with a new password and \<^verbatim>\<open>isActive\<close>: name and email
  are stored trimmed, the time of the update is stamped, the rest of her record stays,
  and the request without the two extra fields does the same. Her renames with an email
  that is none, with a first name of blanks and with Carol's email are answered with 500
  and change no record.\<close>

theorem updateUser_frame_witness:
  "castObjectId id1 = Some 1 \<and> users blog = [alice] \<and> user_id alice = 1 \<and>
   distinct (map user_id (users blog)) \<and>
   firstName rename = Some '' Alicia '' \<and> lastName rename = Some ''Doe'' \<and>
   email rename = Some ''alicia@example.com'' \<and>
   trim '' Alicia '' \<noteq> [] \<and> trim ''Doe'' \<noteq> [] \<and> emailMatch (trim ''alicia@example.com'') \<and>
   firstName renameOnly = firstName rename \<and> lastName renameOnly = lastName rename \<and>
   email renameOnly = email rename \<and>
   status (snd (updateUser id1 rename blog)) = 200 \<and>
   users (fst (updateUser id1 rename blog)) =
     [\<lparr>user_id = 1, user_firstName = ''Alicia'', user_lastName = ''Doe'',
       user_email = ''alicia@example.com'', user_password = ''secret1'',
       user_isActive = False, user_createdAt = 10, user_updatedAt = 100\<rparr>] \<and>
   posts (fst (updateUser id1 rename blog)) = posts blog \<and>
   updateUser id1 renameOnly blog = updateUser id1 rename blog \<and>
   firstName renameBadEmail = Some ''Alicia'' \<and> lastName renameBadEmail = Some ''Doe'' \<and>
   email renameBadEmail = Some ''alicia'' \<and> \<not> emailMatch (trim ''alicia'') \<and>
   fst (updateUser id1 renameBadEmail blog) = blog\<lparr>trace := [(User, FindById), (User, Save)]\<rparr> \<and>
   status (snd (updateUser id1 renameBadEmail blog)) = 500 \<and>
   firstName renameBlankName = Some ''  '' \<and> lastName renameBlankName = Some ''Doe'' \<and>
   email renameBlankName = Some ''alicia@example.com'' \<and> trim ''  '' = [] \<and>
   fst (updateUser id1 renameBlankName blog) =
     blog\<lparr>trace := [(User, FindById), (User, Save)]\<rparr> \<and>
   status (snd (updateUser id1 renameBlankName blog)) = 500 \<and>
   users blog2 = [alice, carol] \<and> user_id carol = 5 \<and> user_email carol = ''carol@example.com'' \<and>
   distinct (map user_id (users blog2)) \<and> distinct (map user_email (users blog2)) \<and>
   firstName renameTaken = Some ''Alicia'' \<and> lastName renameTaken = Some ''Doe'' \<and>
   email renameTaken = Some ''carol@example.com'' \<and>
   trim ''Alicia'' \<noteq> [] \<and> emailMatch (trim ''carol@example.com'') \<and>
   updateUser id1 renameTaken blog2 =
     (blog2\<lparr>trace := [(User, FindById), (User, Save)]\<rparr>,
      \<lparr>status = 500, body = FailureJson DuplicateKey\<rparr>)"
proof -
  have h: "castObjectId id1 = Some 1" "alice \<in> set (users blog)" "user_id alice = 1"
    "distinct (map user_id (users blog))"
    by (simp_all add: castObjectId_examples example_defs)
  have h2: "alice \<in> set (users blog2)" "distinct (map user_id (users blog2))"
    "distinct (map user_email (users blog2))"
    "\<exists>v\<in>set (users blog2). user_id v \<noteq> 1 \<and> user_email v = trim ''carol@example.com''"
    by (simp_all add: example_defs trim_def isSpace_def)
  have good: "firstName rename = Some '' Alicia ''" "lastName rename = Some ''Doe''"
    "email rename = Some ''alicia@example.com''"
    by (simp_all add: rename_def)
  have accepted: "trim '' Alicia '' \<noteq> [] \<and> trim ''Doe'' \<noteq> [] \<and>
      emailMatch (trim ''alicia@example.com'') \<and>
      (\<forall>v\<in>set (users blog). user_id v \<noteq> 1 \<longrightarrow> user_email v \<noteq> trim ''alicia@example.com'')"
    by (simp add: example_defs trim_def isSpace_def emailMatch_def)
  have same3: "firstName renameOnly = firstName rename \<and> lastName renameOnly = lastName rename \<and>
      email renameOnly = email rename"
    by (simp add: rename_def renameOnly_def)
  have bad: "firstName renameBadEmail = Some ''Alicia''" "lastName renameBadEmail = Some ''Doe''"
    "email renameBadEmail = Some ''alicia''"
    by (simp_all add: renameBadEmail_def)
  have bad_why: "''Alicia'' \<noteq> [] \<and> ''Doe'' \<noteq> [] \<and> ''alicia'' \<noteq> [] \<and>
      (trim ''Alicia'' = [] \<or> trim ''Doe'' = [] \<or> \<not> emailMatch (trim ''alicia''))"
    by (simp add: trim_def isSpace_def emailMatch_def)
  have blank: "firstName renameBlankName = Some ''  ''" "lastName renameBlankName = Some ''Doe''"
    "email renameBlankName = Some ''alicia@example.com''"
    by (simp_all add: renameBlankName_def)
  have blank_why: "''  '' \<noteq> [] \<and> ''Doe'' \<noteq> [] \<and> ''alicia@example.com'' \<noteq> [] \<and>
      (trim ''  '' = [] \<or> trim ''Doe'' = [] \<or> \<not> emailMatch (trim ''alicia@example.com''))"
    by (simp add: trim_def isSpace_def)
  have taken: "firstName renameTaken = Some ''Alicia''" "lastName renameTaken = Some ''Doe''"
    "email renameTaken = Some ''carol@example.com''"
    by (simp_all add: renameTaken_def)
  have taken_why: "trim ''Alicia'' \<noteq> [] \<and> trim ''Doe'' \<noteq> [] \<and>
      emailMatch (trim ''carol@example.com'')"
    by (simp add: trim_def isSpace_def emailMatch_def)
  have evals: "users blog = [alice]" "trim '' Alicia '' = ''Alicia''" "trim ''Doe'' = ''Doe''"
    "trim ''alicia@example.com'' = ''alicia@example.com''" "clock blog = 100"
    "trace blog = []" "trace blog2 = []" "users blog2 = [alice, carol]" "user_id carol = 5"
    "user_email carol = ''carol@example.com''" "trim ''  '' = []"
    "\<not> emailMatch (trim ''alicia'')"
    by (simp_all add: example_defs trim_def isSpace_def emailMatch_def)
  have r1: "status (snd (updateUser id1 rename blog)) = 200 \<and>
      users (fst (updateUser id1 rename blog)) =
        [\<lparr>user_id = 1, user_firstName = ''Alicia'', user_lastName = ''Doe'',
          user_email = ''alicia@example.com'', user_password = ''secret1'',
          user_isActive = False, user_createdAt = 10, user_updatedAt = 100\<rparr>] \<and>
      posts (fst (updateUser id1 rename blog)) = posts blog"
    using updateUser_frame [OF h good, where b' = renameOnly, THEN conjunct1, THEN mp,
        OF accepted] evals(1-5)
    by (simp add: alice_def)
  have r2: "updateUser id1 renameOnly blog = updateUser id1 rename blog"
    using updateUser_frame [OF h good, where b' = renameOnly, THEN conjunct2, THEN conjunct2,
        THEN conjunct2, THEN mp, OF same3] .
  have r3: "fst (updateUser id1 renameBadEmail blog) =
        blog\<lparr>trace := trace blog @ [(User, FindById), (User, Save)]\<rparr> \<and>
      status (snd (updateUser id1 renameBadEmail blog)) = 500"
  proof -
    obtain errs where "updateUser id1 renameBadEmail blog =
        (blog\<lparr>trace := trace blog @ [(User, FindById), (User, Save)]\<rparr>,
         \<lparr>status = 500, body = FailureJson (ValidationError errs)\<rparr>)"
      using updateUser_frame [OF h bad, where b' = renameOnly, THEN conjunct2, THEN conjunct1,
          THEN mp, OF bad_why]
      by blast
    then show ?thesis by simp
  qed
  have r4: "fst (updateUser id1 renameBlankName blog) =
        blog\<lparr>trace := trace blog @ [(User, FindById), (User, Save)]\<rparr> \<and>
      status (snd (updateUser id1 renameBlankName blog)) = 500"
  proof -
    obtain errs where "updateUser id1 renameBlankName blog =
        (blog\<lparr>trace := trace blog @ [(User, FindById), (User, Save)]\<rparr>,
         \<lparr>status = 500, body = FailureJson (ValidationError errs)\<rparr>)"
      using updateUser_frame [OF h blank, where b' = renameOnly, THEN conjunct2, THEN conjunct1,
          THEN mp, OF blank_why]
      by blast
    then show ?thesis by simp
  qed
  have r5: "updateUser id1 renameTaken blog2 =
      (blog2\<lparr>trace := trace blog2 @ [(User, FindById), (User, Save)]\<rparr>,
       \<lparr>status = 500, body = FailureJson DuplicateKey\<rparr>)"
    using updateUser_frame [OF h(1) h2(1) h(3) h2(2) taken, where b' = renameOnly,
        THEN conjunct2, THEN conjunct2, THEN conjunct1, THEN mp]
      taken_why h2(3,4) by blast
  show ?thesis
    using h(1,3,4) h2(2,3) good accepted same3 bad blank taken taken_why evals
      r1 r2 r3 r4 r5
    by simp
qed

text \<open>The claim as it was stated fails on the same record. With all three fields present
  but an email the schema rejects, or one that another user has, the save raises an error:
  the answer is 500 and nothing is overwritten. And the accepted rename changes a fourth
  stored field, \<^verbatim>\<open>updatedAt\<close>, and stores the first name trimmed, not as sent.\<close>

theorem updateUser_frame_counterexample:
  "castObjectId id1 = Some (user_id alice) \<and> users blog = [alice] \<and>
   truthy (firstName renameBadEmail) \<and> truthy (lastName renameBadEmail) \<and>
   truthy (email renameBadEmail) \<and>
   updateUser id1 renameBadEmail blog =
     (blog\<lparr>trace := [(User, FindById), (User, Save)]\<rparr>,
      \<lparr>status = 500, body = FailureJson (ValidationError [''Email is not valid''])\<rparr>) \<and>
   users blog2 = [alice, carol] \<and>
   truthy (firstName renameTaken) \<and> truthy (lastName renameTaken) \<and>
   truthy (email renameTaken) \<and>
   updateUser id1 renameTaken blog2 =
     (blog2\<lparr>trace := [(User, FindById), (User, Save)]\<rparr>,
      \<lparr>status = 500, body = FailureJson DuplicateKey\<rparr>) \<and>
   truthy (firstName rename) \<and> truthy (lastName rename) \<and> truthy (email rename) \<and>
   status (snd (updateUser id1 rename blog)) = 200 \<and>
   map user_updatedAt (users (fst (updateUser id1 rename blog))) = [100] \<and>
   map user_updatedAt (users blog) = [10] \<and>
   map user_firstName (users (fst (updateUser id1 rename blog))) = [''Alicia''] \<and>
   firstName rename = Some '' Alicia ''"
  by (simp add: updateUser_def run_defs example_defs castObjectId_examples
        rename_def renameBadEmail_def renameTaken_def)

text \<open>
  Claim C10. In both update handlers the presence test comes first: a request that lacks
  one of the editable fields is answered with status 400 and leaves the state as it was,
  with no Mongoose call made, whatever the id is: malformed, unknown or that of a stored
  record.
\<close>

theorem update_missing_field:
  fixes b :: "'a UserType_scheme" and pb :: "'b PostType_scheme"
  shows "(\<not> truthy (firstName b) \<or> \<not> truthy (lastName b) \<or> \<not> truthy (email b) \<longrightarrow>
            updateUser i b s =
              (s, \<lparr>status = 400,
                   body = ErrorJson ''firstName, lastName, and email are required''\<rparr>))
       \<and> (\<not> truthy (title pb) \<or> \<not> truthy (content pb) \<or> \<not> truthy (userId pb) \<longrightarrow>
            updatePost j pb s =
              (s, \<lparr>status = 400,
                   body = ErrorJson ''title, content, and userId are required''\<rparr>))"
  by (simp add: updateUser_def updatePost_def response_defs)

text \<open>An update without \<^verbatim>\<open>email\<close> for an id no user has, and one without \<^verbatim>\<open>content\<close>
  for an id that is not even an ObjectId: both are 400, not 404 or 500.\<close>

theorem update_missing_field_witness:
  "\<not> truthy (email renameNoEmail) \<and> castObjectId id9 = Some 9 \<and> users blog = [alice] \<and>
   user_id alice \<noteq> 9 \<and>
   updateUser id9 renameNoEmail blog =
     (blog, \<lparr>status = 400,
             body = ErrorJson ''firstName, lastName, and email are required''\<rparr>) \<and>
   \<not> truthy (content draftNoContent) \<and> castObjectId ''abc'' = None \<and>
   updatePost ''abc'' draftNoContent blog =
     (blog, \<lparr>status = 400, body = ErrorJson ''title, content, and userId are required''\<rparr>)"
proof -
  have h: "\<not> truthy (email renameNoEmail)" "\<not> truthy (content draftNoContent)"
    by (simp_all add: renameNoEmail_def draftNoContent_def truthy_def)
  have "user_id alice \<noteq> 9" "users blog = [alice]"
    by (simp_all add: example_defs)
  then show ?thesis
    using update_missing_field [of renameNoEmail id9 blog draftNoContent "''abc''"] h
    by (simp add: castObjectId_examples)
qed

subsection \<open>Reading users and posts\<close>

text \<open>
  Claim C5. \<^verbatim>\<open>password\<close> is declared \<^verbatim>\<open>select: false\<close>, so the queries leave it out: the
  list of users has one document for each stored user, in which the password is absent,
  and whatever user document the get-by-id handler returns has no password either; for
  the id of a stored user it returns that user's document.
\<close>

theorem password_not_returned:
  "(\<exists>ds. snd (getUsers s) = \<lparr>status = 200, body = UsersJson ds\<rparr> \<and>
         map doc_id ds = map user_id (users s) \<and>
         map doc_password ds = map (\<lambda>u. None) (users s))
   \<and> (\<forall>d. body (snd (getUserById i s)) = UserJson d \<longrightarrow> doc_password d = None)
   \<and> (castObjectId i = Some oid \<and> List.find (\<lambda>u. user_id u = oid) (users s) = Some u \<longrightarrow>
         (\<exists>d. snd (getUserById i s) = \<lparr>status = 200, body = UserJson d\<rparr> \<and> doc_id d = oid \<and>
              doc_email d = user_email u \<and> doc_password d = None))"
  by (auto simp add: getUsers_def User_find_def getUserById_def User_findById_def
        hydrateUser_def response_defs comp_def
        split: option.splits dest: find_SomeD)

text \<open>Alice has a stored password; neither the list nor her own document shows it.\<close>

theorem password_not_returned_witness:
  "user_password alice = ''secret1'' \<and> users blog = [alice] \<and> castObjectId id1 = Some 1 \<and>
   List.find (\<lambda>u. user_id u = 1) (users blog) = Some alice \<and>
   snd (getUsers blog) =
     \<lparr>status = 200,
      body = UsersJson
        [\<lparr>doc_id = 1, doc_firstName = ''Alice'', doc_lastName = ''Doe'',
          doc_email = ''alice@example.com'', doc_password = None, doc_isActive = False,
          doc_createdAt = 10, doc_updatedAt = 10, doc_modified = []\<rparr>]\<rparr> \<and>
   snd (getUserById id1 blog) =
     \<lparr>status = 200,
      body = UserJson
        \<lparr>doc_id = 1, doc_firstName = ''Alice'', doc_lastName = ''Doe'',
         doc_email = ''alice@example.com'', doc_password = None, doc_isActive = False,
         doc_createdAt = 10, doc_updatedAt = 10, doc_modified = []\<rparr>\<rparr> \<and>
   doc_password
     \<lparr>doc_id = 1, doc_firstName = ''Alice'', doc_lastName = ''Doe'',
      doc_email = ''alice@example.com'', doc_password = None, doc_isActive = False,
      doc_createdAt = 10, doc_updatedAt = 10, doc_modified = []\<rparr> = None"
proof -
  have h: "castObjectId id1 = Some 1"
    "List.find (\<lambda>u. user_id u = 1) (users blog) = Some alice"
    by (simp_all add: castObjectId_examples example_defs)
  have got: "snd (getUserById id1 blog) =
     \<lparr>status = 200,
      body = UserJson
        \<lparr>doc_id = 1, doc_firstName = ''Alice'', doc_lastName = ''Doe'',
         doc_email = ''alice@example.com'', doc_password = None, doc_isActive = False,
         doc_createdAt = 10, doc_updatedAt = 10, doc_modified = []\<rparr>\<rparr>"
    by (simp add: getUserById_def run_defs example_defs castObjectId_examples)
  have listed: "snd (getUsers blog) =
     \<lparr>status = 200,
      body = UsersJson
        [\<lparr>doc_id = 1, doc_firstName = ''Alice'', doc_lastName = ''Doe'',
          doc_email = ''alice@example.com'', doc_password = None, doc_isActive = False,
          doc_createdAt = 10, doc_updatedAt = 10, doc_modified = []\<rparr>]\<rparr>"
    by (simp add: getUsers_def run_defs example_defs)
  have "doc_password
     \<lparr>doc_id = 1, doc_firstName = ''Alice'', doc_lastName = ''Doe'',
      doc_email = ''alice@example.com'', doc_password = None, doc_isActive = False,
      doc_createdAt = 10, doc_updatedAt = 10, doc_modified = []\<rparr> = None"
    using password_not_returned [of blog id1 1 alice] got by simp
  then show ?thesis
    using h got listed by (simp add: example_defs)
qed

text \<open>
  Claim C7. For a well-formed id that no stored record has, the get-by-id handlers answer
  404 with \<^verbatim>\<open>{"error": "User not found"}\<close> and \<^verbatim>\<open>{"error": "Post not found"}\<close>. For the id
  of a stored post the answer is 200 with the post, its \<^verbatim>\<open>userId\<close> replaced by the
  \<^verbatim>\<open>_id\<close>, \<^verbatim>\<open>firstName\<close>, \<^verbatim>\<open>lastName\<close> and \<^verbatim>\<open>email\<close> of the user with that id, or by
  \<^verbatim>\<open>null\<close> when there is none.
\<close>

theorem getById_not_found:
  assumes "castObjectId i = Some oid"
  shows "((\<forall>u\<in>set (users s). user_id u \<noteq> oid) \<longrightarrow>
            snd (getUserById i s) = \<lparr>status = 404, body = ErrorJson ''User not found''\<rparr>)
       \<and> ((\<forall>p\<in>set (posts s). post_id p \<noteq> oid) \<longrightarrow>
            snd (getPostById i s) = \<lparr>status = 404, body = ErrorJson ''Post not found''\<rparr>)
       \<and> (List.find (\<lambda>p. post_id p = oid) (posts s) = Some p \<longrightarrow>
            snd (getPostById i s) =
              \<lparr>status = 200,
               body = PostJson
                 \<lparr>pdoc_id = post_id p, pdoc_title = post_title p, pdoc_content = post_content p,
                  pdoc_userId = Populated
                    (case List.find (\<lambda>u. user_id u = post_userId p) (users s) of
                       None \<Rightarrow> None
                     | Some u \<Rightarrow> Some
                         \<lparr>author_id = user_id u, author_firstName = user_firstName u,
                          author_lastName = user_lastName u, author_email = user_email u\<rparr>),
                  pdoc_createdAt = post_createdAt p, pdoc_updatedAt = post_updatedAt p,
                  pdoc_modified = []\<rparr>\<rparr>)"
proof -
  have "(\<forall>u\<in>set (users s). user_id u \<noteq> oid) \<longrightarrow>
            snd (getUserById i s) = \<lparr>status = 404, body = ErrorJson ''User not found''\<rparr>"
    using assms
    by (clarsimp simp add: getUserById_def User_findById_def response_defs
          find_None_set [symmetric])
  moreover have "(\<forall>p\<in>set (posts s). post_id p \<noteq> oid) \<longrightarrow>
            snd (getPostById i s) = \<lparr>status = 404, body = ErrorJson ''Post not found''\<rparr>"
    using assms
    by (clarsimp simp add: getPostById_def Post_findById_populate_def Post_findById_def
          response_defs find_None_set [symmetric])
  moreover have "List.find (\<lambda>p. post_id p = oid) (posts s) = Some p \<longrightarrow>
            snd (getPostById i s) =
              \<lparr>status = 200,
               body = PostJson
                 \<lparr>pdoc_id = post_id p, pdoc_title = post_title p, pdoc_content = post_content p,
                  pdoc_userId = Populated
                    (case List.find (\<lambda>u. user_id u = post_userId p) (users s) of
                       None \<Rightarrow> None
                     | Some u \<Rightarrow> Some
                         \<lparr>author_id = user_id u, author_firstName = user_firstName u,
                          author_lastName = user_lastName u, author_email = user_email u\<rparr>),
                  pdoc_createdAt = post_createdAt p, pdoc_updatedAt = post_updatedAt p,
                  pdoc_modified = []\<rparr>\<rparr>"
    using assms
    by (auto simp add: getPostById_def Post_findById_populate_def Post_findById_def
       populate_def populated_def hydratePost_def authorOf_def response_defs
       split: option.splits)
  ultimately show ?thesis by blast
qed

text \<open>Nobody and nothing has id 9. Post 2 comes back with Alice as its author, post 6
  with Carol, and post 3, whose author is not stored, with \<^verbatim>\<open>null\<close>.\<close>

theorem getById_not_found_witness:
  "castObjectId id9 = Some 9 \<and> users blog2 = [alice, carol] \<and> user_id alice \<noteq> 9 \<and>
   user_id carol \<noteq> 9 \<and> posts blog2 = [hello, orphan, reply] \<and> post_id hello \<noteq> 9 \<and>
   post_id orphan \<noteq> 9 \<and> post_id reply \<noteq> 9 \<and>
   snd (getUserById id9 blog2) = \<lparr>status = 404, body = ErrorJson ''User not found''\<rparr> \<and>
   snd (getPostById id9 blog2) = \<lparr>status = 404, body = ErrorJson ''Post not found''\<rparr> \<and>
   castObjectId id2 = Some 2 \<and> List.find (\<lambda>p. post_id p = 2) (posts blog2) = Some hello \<and>
   snd (getPostById id2 blog2) =
     \<lparr>status = 200,
      body = PostJson
        \<lparr>pdoc_id = 2, pdoc_title = ''Hello'', pdoc_content = ''World'',
         pdoc_userId = Populated (Some
           \<lparr>author_id = 1, author_firstName = ''Alice'', author_lastName = ''Doe'',
            author_email = ''alice@example.com''\<rparr>),
         pdoc_createdAt = 20, pdoc_updatedAt = 20, pdoc_modified = []\<rparr>\<rparr> \<and>
   castObjectId id6 = Some 6 \<and> List.find (\<lambda>p. post_id p = 6) (posts blog2) = Some reply \<and>
   snd (getPostById id6 blog2) =
     \<lparr>status = 200,
      body = PostJson
        \<lparr>pdoc_id = 6, pdoc_title = ''Re: Hello'', pdoc_content = ''Hi'',
         pdoc_userId = Populated (Some
           \<lparr>author_id = 5, author_firstName = ''Carol'', author_lastName = ''Poe'',
            author_email = ''carol@example.com''\<rparr>),
         pdoc_createdAt = 50, pdoc_updatedAt = 50, pdoc_modified = []\<rparr>\<rparr> \<and>
   castObjectId id3 = Some 3 \<and> List.find (\<lambda>p. post_id p = 3) (posts blog2) = Some orphan \<and>
   snd (getPostById id3 blog2) =
     \<lparr>status = 200,
      body = PostJson
        \<lparr>pdoc_id = 3, pdoc_title = ''Lost'', pdoc_content = ''Soul'',
         pdoc_userId = Populated None,
         pdoc_createdAt = 30, pdoc_updatedAt = 30, pdoc_modified = []\<rparr>\<rparr>"
proof -
  have h: "castObjectId id9 = Some 9" "castObjectId id2 = Some 2" "castObjectId id6 = Some 6"
    "castObjectId id3 = Some 3"
    by (simp_all add: castObjectId_examples)
  have absent: "\<forall>u\<in>set (users blog2). user_id u \<noteq> 9" "\<forall>p\<in>set (posts blog2). post_id p \<noteq> 9"
    by (simp_all add: example_defs)
  have present: "List.find (\<lambda>p. post_id p = 2) (posts blog2) = Some hello"
    "List.find (\<lambda>p. post_id p = 6) (posts blog2) = Some reply"
    "List.find (\<lambda>p. post_id p = 3) (posts blog2) = Some orphan"
    by (simp_all add: example_defs)
  have evals: "users blog2 = [alice, carol]" "user_id alice \<noteq> 9" "user_id carol \<noteq> 9"
    "posts blog2 = [hello, orphan, reply]" "post_id hello \<noteq> 9" "post_id orphan \<noteq> 9"
    "post_id reply \<noteq> 9"
    by (simp_all add: example_defs)
  have "snd (getUserById id9 blog2) = \<lparr>status = 404, body = ErrorJson ''User not found''\<rparr>"
    using getById_not_found [OF h(1), of blog2, THEN conjunct1, THEN mp, OF absent(1)] .
  moreover have
    "snd (getPostById id9 blog2) = \<lparr>status = 404, body = ErrorJson ''Post not found''\<rparr>"
    using getById_not_found [OF h(1), of blog2, THEN conjunct2, THEN conjunct1, THEN mp,
        OF absent(2)] .
  moreover have "snd (getPostById id2 blog2) =
     \<lparr>status = 200,
      body = PostJson
        \<lparr>pdoc_id = 2, pdoc_title = ''Hello'', pdoc_content = ''World'',
         pdoc_userId = Populated (Some
           \<lparr>author_id = 1, author_firstName = ''Alice'', author_lastName = ''Doe'',
            author_email = ''alice@example.com''\<rparr>),
         pdoc_createdAt = 20, pdoc_updatedAt = 20, pdoc_modified = []\<rparr>\<rparr>"
    using getById_not_found [OF h(2), of blog2 hello, THEN conjunct2, THEN conjunct2, THEN mp,
        OF present(1)]
    by (simp add: example_defs)
  moreover have "snd (getPostById id6 blog2) =
     \<lparr>status = 200,
      body = PostJson
        \<lparr>pdoc_id = 6, pdoc_title = ''Re: Hello'', pdoc_content = ''Hi'',
         pdoc_userId = Populated (Some
           \<lparr>author_id = 5, author_firstName = ''Carol'', author_lastName = ''Poe'',
            author_email = ''carol@example.com''\<rparr>),
         pdoc_createdAt = 50, pdoc_updatedAt = 50, pdoc_modified = []\<rparr>\<rparr>"
    using getById_not_found [OF h(3), of blog2 reply, THEN conjunct2, THEN conjunct2, THEN mp,
        OF present(2)]
    by (simp add: example_defs)
  moreover have "snd (getPostById id3 blog2) =
     \<lparr>status = 200,
      body = PostJson
        \<lparr>pdoc_id = 3, pdoc_title = ''Lost'', pdoc_content = ''Soul'',
         pdoc_userId = Populated None,
         pdoc_createdAt = 30, pdoc_updatedAt = 30, pdoc_modified = []\<rparr>\<rparr>"
    using getById_not_found [OF h(4), of blog2 orphan, THEN conjunct2, THEN conjunct2, THEN mp,
        OF present(3)]
    by (simp add: example_defs)
  ultimately show ?thesis
    using h present evals by simp
qed

text \<open>
  Claim C9. An id that does not cast to an ObjectId makes \<^verbatim>\<open>findById\<close> raise a cast error,
  which is not the \<^verbatim>\<open>null\<close> of a record that is not found. The get-by-id handlers have
  no branch for it: it reaches the catch block, and the answer is status 500 with the
  message of the error, not 404.
\<close>

theorem getById_malformed_id:
  assumes "castObjectId i = None"
  shows "snd (User_findById i s) = Inl (CastError ''_id'')
       \<and> snd (Post_findById i s) = Inl (CastError ''_id'')
       \<and> getUserById i s =
           (s\<lparr>trace := trace s @ [(User, FindById)]\<rparr>,
            \<lparr>status = 500, body = FailureJson (CastError ''_id'')\<rparr>)
       \<and> getPostById i s =
           (s\<lparr>trace := trace s @ [(Post, FindById)]\<rparr>,
            \<lparr>status = 500, body = FailureJson (CastError ''_id'')\<rparr>)"
  using assms
  by (simp add: getUserById_def getPostById_def User_findById_def Post_findById_populate_def
        Post_findById_def response_defs)

theorem getById_malformed_id_witness:
  "castObjectId ''abc'' = None \<and>
   snd (User_findById ''abc'' blog) = Inl (CastError ''_id'') \<and>
   snd (Post_findById ''abc'' blog) = Inl (CastError ''_id'') \<and>
   getUserById ''abc'' blog =
     (blog\<lparr>trace := [(User, FindById)]\<rparr>,
      \<lparr>status = 500, body = FailureJson (CastError ''_id'')\<rparr>) \<and>
   getPostById ''abc'' blog =
     (blog\<lparr>trace := [(Post, FindById)]\<rparr>,
      \<lparr>status = 500, body = FailureJson (CastError ''_id'')\<rparr>)"
proof -
  have h: "castObjectId ''abc'' = None"
    by (simp add: castObjectId_examples)
  have "trace blog = []"
    by (simp add: blog_def)
  then show ?thesis
    using getById_malformed_id [OF h, of blog] h by simp
qed

subsection \<open>Creating a post\<close>






subsection \<open>Listing posts\<close>

text \<open>
  Claim C8. In every state the list-Posts handler answers 200 with one document for each
  stored post, in the stored order, in which \<^verbatim>\<open>userId\<close> is no longer the raw id: it is the
  projection (\<^verbatim>\<open>firstName\<close>, \<^verbatim>\<open>lastName\<close>, \<^verbatim>\<open>email\<close>, with the \<^verbatim>\<open>_id\<close> Mongoose always
  adds) of the user with that id, or \<^verbatim>\<open>null\<close> when no user has it. The collections are
  left as they were.
\<close>

theorem getPosts_populated:
  "snd (getPosts s) =
     \<lparr>status = 200,
      body = PostsJson (map (\<lambda>p.
                \<lparr>pdoc_id = post_id p, pdoc_title = post_title p, pdoc_content = post_content p,
                 pdoc_userId = Populated
                   (case List.find (\<lambda>u. user_id u = post_userId p) (users s) of
                      None \<Rightarrow> None
                    | Some u \<Rightarrow> Some
                        \<lparr>author_id = user_id u, author_firstName = user_firstName u,
                         author_lastName = user_lastName u, author_email = user_email u\<rparr>),
                 pdoc_createdAt = post_createdAt p, pdoc_updatedAt = post_updatedAt p,
                 pdoc_modified = []\<rparr>) (posts s))\<rparr>
   \<and> users (fst (getPosts s)) = users s \<and> posts (fst (getPosts s)) = posts s"
  by (auto simp add: getPosts_def Post_find_populate_def populated_def hydratePost_def
        authorOf_def response_defs split: option.splits)

text \<open>Alice's post is listed with her name and email, the orphaned post with
  \<^verbatim>\<open>null\<close>.\<close>

theorem getPosts_populated_witness:
  "snd (getPosts blog) =
     \<lparr>status = 200,
      body = PostsJson
        [\<lparr>pdoc_id = 2, pdoc_title = ''Hello'', pdoc_content = ''World'',
          pdoc_userId = Populated (Some
            \<lparr>author_id = 1, author_firstName = ''Alice'', author_lastName = ''Doe'',
             author_email = ''alice@example.com''\<rparr>),
          pdoc_createdAt = 20, pdoc_updatedAt = 20, pdoc_modified = []\<rparr>,
         \<lparr>pdoc_id = 3, pdoc_title = ''Lost'', pdoc_content = ''Soul'',
          pdoc_userId = Populated None,
          pdoc_createdAt = 30, pdoc_updatedAt = 30, pdoc_modified = []\<rparr>]\<rparr> \<and>
   users (fst (getPosts blog)) = users blog \<and> posts (fst (getPosts blog)) = posts blog"
  using getPosts_populated [of blog]
  by (simp add: example_defs)

subsection \<open>Deleting\<close>

text \<open>
  Claim C4. For a well-formed id, the delete handlers make one Mongoose call,
  \<^verbatim>\<open>findByIdAndDelete\<close>. When a record has the id (ids are unique in a collection), the
  call removes it and the answer is 200 with \<^verbatim>\<open>{"message": "User deleted"}\<close>, or
  \<^verbatim>\<open>"Post deleted"\<close>; a second delete of the same id makes the same single call, removes
  nothing and answers 404.
\<close>

theorem delete_twice:
  assumes "castObjectId i = Some oid"
  shows "(u \<in> set (users s) \<and> user_id u = oid \<and> distinct (map user_id (users s)) \<longrightarrow>
            deleteUser i s =
              (s\<lparr>users := remove1 u (users s), trace := trace s @ [(User, FindByIdAndDelete)]\<rparr>,
               \<lparr>status = 200, body = MessageJson ''User deleted''\<rparr>) \<and>
            deleteUser i (fst (deleteUser i s)) =
              (s\<lparr>users := remove1 u (users s),
                 trace := trace s @ [(User, FindByIdAndDelete), (User, FindByIdAndDelete)]\<rparr>,
               \<lparr>status = 404, body = ErrorJson ''User not found''\<rparr>))
       \<and> (p \<in> set (posts s) \<and> post_id p = oid \<and> distinct (map post_id (posts s)) \<longrightarrow>
            deletePost i s =
              (s\<lparr>posts := remove1 p (posts s), trace := trace s @ [(Post, FindByIdAndDelete)]\<rparr>,
               \<lparr>status = 200, body = MessageJson ''Post deleted''\<rparr>) \<and>
            deletePost i (fst (deletePost i s)) =
              (s\<lparr>posts := remove1 p (posts s),
                 trace := trace s @ [(Post, FindByIdAndDelete), (Post, FindByIdAndDelete)]\<rparr>,
               \<lparr>status = 404, body = ErrorJson ''Post not found''\<rparr>))"
proof -
  have user: "deleteUser i s =
              (s\<lparr>users := remove1 u (users s), trace := trace s @ [(User, FindByIdAndDelete)]\<rparr>,
               \<lparr>status = 200, body = MessageJson ''User deleted''\<rparr>) \<and>
            deleteUser i (fst (deleteUser i s)) =
              (s\<lparr>users := remove1 u (users s),
                 trace := trace s @ [(User, FindByIdAndDelete), (User, FindByIdAndDelete)]\<rparr>,
               \<lparr>status = 404, body = ErrorJson ''User not found''\<rparr>)"
    if u: "u \<in> set (users s)" "user_id u = oid" and d: "distinct (map user_id (users s))"
  proof -
    have found: "List.find (\<lambda>x. user_id x = oid) (users s) = Some u"
      using find_distinct [OF d u(1)] u(2) by simp
    have gone: "List.find (\<lambda>x. user_id x = oid) (remove1 u (users s)) = None"
      using remove1_distinct_key [OF d u(1)] u(2) by (auto simp: find_None_set)
    have first: "deleteUser i s =
              (s\<lparr>users := remove1 u (users s), trace := trace s @ [(User, FindByIdAndDelete)]\<rparr>,
               \<lparr>status = 200, body = MessageJson ''User deleted''\<rparr>)"
      using assms found by (simp add: deleteUser_def User_findByIdAndDelete_def response_defs)
    show ?thesis
      unfolding first using assms gone
      by (simp add: deleteUser_def User_findByIdAndDelete_def response_defs)
  qed
  have post: "deletePost i s =
              (s\<lparr>posts := remove1 p (posts s), trace := trace s @ [(Post, FindByIdAndDelete)]\<rparr>,
               \<lparr>status = 200, body = MessageJson ''Post deleted''\<rparr>) \<and>
            deletePost i (fst (deletePost i s)) =
              (s\<lparr>posts := remove1 p (posts s),
                 trace := trace s @ [(Post, FindByIdAndDelete), (Post, FindByIdAndDelete)]\<rparr>,
               \<lparr>status = 404, body = ErrorJson ''Post not found''\<rparr>)"
    if p: "p \<in> set (posts s)" "post_id p = oid" and d: "distinct (map post_id (posts s))"
  proof -
    have found: "List.find (\<lambda>x. post_id x = oid) (posts s) = Some p"
      using find_distinct [OF d p(1)] p(2) by simp
    have gone: "List.find (\<lambda>x. post_id x = oid) (remove1 p (posts s)) = None"
      using remove1_distinct_key [OF d p(1)] p(2) by (auto simp: find_None_set)
    have first: "deletePost i s =
              (s\<lparr>posts := remove1 p (posts s), trace := trace s @ [(Post, FindByIdAndDelete)]\<rparr>,
               \<lparr>status = 200, body = MessageJson ''Post deleted''\<rparr>)"
      using assms found by (simp add: deletePost_def Post_findByIdAndDelete_def response_defs)
    show ?thesis
      unfolding first using assms gone
      by (simp add: deletePost_def Post_findByIdAndDelete_def response_defs)
  qed
  from user post show ?thesis by blast
qed

text \<open>Deleting Alice twice, and the orphaned post twice.\<close>

theorem delete_twice_witness:
  "castObjectId id1 = Some 1 \<and> users blog = [alice] \<and> user_id alice = 1 \<and>
   distinct (map user_id (users blog)) \<and>
   deleteUser id1 blog =
     (blog\<lparr>users := [], trace := [(User, FindByIdAndDelete)]\<rparr>,
      \<lparr>status = 200, body = MessageJson ''User deleted''\<rparr>) \<and>
   deleteUser id1 (fst (deleteUser id1 blog)) =
     (blog\<lparr>users := [], trace := [(User, FindByIdAndDelete), (User, FindByIdAndDelete)]\<rparr>,
      \<lparr>status = 404, body = ErrorJson ''User not found''\<rparr>) \<and>
   castObjectId id3 = Some 3 \<and> posts blog = [hello, orphan] \<and> post_id orphan = 3 \<and>
   distinct (map post_id (posts blog)) \<and>
   deletePost id3 blog =
     (blog\<lparr>posts := [hello], trace := [(Post, FindByIdAndDelete)]\<rparr>,
      \<lparr>status = 200, body = MessageJson ''Post deleted''\<rparr>) \<and>
   deletePost id3 (fst (deletePost id3 blog)) =
     (blog\<lparr>posts := [hello], trace := [(Post, FindByIdAndDelete), (Post, FindByIdAndDelete)]\<rparr>,
      \<lparr>status = 404, body = ErrorJson ''Post not found''\<rparr>)"
proof -
  have h: "castObjectId id1 = Some 1" "castObjectId id3 = Some 3"
    by (simp_all add: castObjectId_examples)
  have stored: "alice \<in> set (users blog) \<and> user_id alice = 1 \<and>
      distinct (map user_id (users blog))"
    "orphan \<in> set (posts blog) \<and> post_id orphan = 3 \<and> distinct (map post_id (posts blog))"
    by (simp_all add: example_defs)
  have evals: "users blog = [alice]" "posts blog = [hello, orphan]" "trace blog = []"
    "remove1 alice (users blog) = []" "remove1 orphan (posts blog) = [hello]"
    by (simp_all add: example_defs)
  have both: "deleteUser id1 blog =
       (blog\<lparr>users := remove1 alice (users blog),
             trace := trace blog @ [(User, FindByIdAndDelete)]\<rparr>,
        \<lparr>status = 200, body = MessageJson ''User deleted''\<rparr>) \<and>
     deleteUser id1 (fst (deleteUser id1 blog)) =
       (blog\<lparr>users := remove1 alice (users blog),
             trace := trace blog @ [(User, FindByIdAndDelete), (User, FindByIdAndDelete)]\<rparr>,
        \<lparr>status = 404, body = ErrorJson ''User not found''\<rparr>)"
    "deletePost id3 blog =
       (blog\<lparr>posts := remove1 orphan (posts blog),
             trace := trace blog @ [(Post, FindByIdAndDelete)]\<rparr>,
        \<lparr>status = 200, body = MessageJson ''Post deleted''\<rparr>) \<and>
     deletePost id3 (fst (deletePost id3 blog)) =
       (blog\<lparr>posts := remove1 orphan (posts blog),
             trace := trace blog @ [(Post, FindByIdAndDelete), (Post, FindByIdAndDelete)]\<rparr>,
        \<lparr>status = 404, body = ErrorJson ''Post not found''\<rparr>)"
    using delete_twice [OF h(1), of alice blog] delete_twice [OF h(2), of _ blog orphan] stored
    by blast+
  have user: "deleteUser id1 blog =
     (blog\<lparr>users := [], trace := [(User, FindByIdAndDelete)]\<rparr>,
      \<lparr>status = 200, body = MessageJson ''User deleted''\<rparr>)"
    using both(1) [THEN conjunct1] evals(3,4) by simp
  have user2: "deleteUser id1 (fst (deleteUser id1 blog)) =
     (blog\<lparr>users := [], trace := [(User, FindByIdAndDelete), (User, FindByIdAndDelete)]\<rparr>,
      \<lparr>status = 404, body = ErrorJson ''User not found''\<rparr>)"
    using both(1) [THEN conjunct2] evals(3,4) by simp
  have post: "deletePost id3 blog =
     (blog\<lparr>posts := [hello], trace := [(Post, FindByIdAndDelete)]\<rparr>,
      \<lparr>status = 200, body = MessageJson ''Post deleted''\<rparr>)"
    using both(2) [THEN conjunct1] evals(3,5) by simp
  have post2: "deletePost id3 (fst (deletePost id3 blog)) =
     (blog\<lparr>posts := [hello], trace := [(Post, FindByIdAndDelete), (Post, FindByIdAndDelete)]\<rparr>,
      \<lparr>status = 404, body = ErrorJson ''Post not found''\<rparr>)"
    using both(2) [THEN conjunct2] evals(3,5) by simp
  show ?thesis
    using h evals(1,2) user user2 post post2 by (simp add: alice_def hello_def orphan_def)
qed

end
